theory Spec2Isabelle
  imports Complex_Main "HOL-Library.AList" "HOL-Library.Log_Nat"
begin

section \<open>Python values, errors and dictionaries\<close>

text \<open>
  The exceptions that the functions of \<^verbatim>\<open>exercises.py\<close> can raise. Every raise of the
  source is a result \<open>Inl e\<close> of the model; a normal return is \<open>Inr v\<close>.
\<close>

datatype error = KeyError | TypeError | ValueError | OverflowError | IndexError | AttributeError

text \<open>
  The values found in the telemetry records and in the merged entries. The source
  annotates the telemetry as \<^verbatim>\<open>List[Dict[str, int]]\<close> and the timestamps as \<^verbatim>\<open>int\<close>
  (epoch milliseconds), so numbers are integers here; \<open>PNone\<close> is JSON null and the
  result of \<^verbatim>\<open>dict.get\<close> on a missing key; \<open>PStr\<close> is a string (the formatted time of
  a merged entry, or a string found in the JSON). Floating-point numbers, booleans and
  nested containers in the telemetry are outside the model.
\<close>

datatype pyval = PNone | PInt int | PStr string

fun truthy :: "pyval \<Rightarrow> bool" where
  "truthy PNone = False"
| "truthy (PInt n) = (n \<noteq> 0)"
| "truthy (PStr s) = (s \<noteq> [])"

text \<open>
  A Python \<^verbatim>\<open>dict\<close> keeps its keys in insertion order; assigning to a key that exists
  keeps the key's place. This is an association list with \<open>AList.update\<close>.
\<close>

type_synonym ('k, 'v) dict = "('k \<times> 'v) list"

definition dict_get :: "('k, 'v) dict \<Rightarrow> 'k \<Rightarrow> 'v option" where
  "dict_get d k = map_of d k"

definition dict_has :: "('k, 'v) dict \<Rightarrow> 'k \<Rightarrow> bool" where
  "dict_has d k = (k \<in> set (map fst d))"

definition dict_set :: "('k, 'v) dict \<Rightarrow> 'k \<Rightarrow> 'v \<Rightarrow> ('k, 'v) dict" where
  "dict_set d k v = AList.update k v d"

definition dict_keys :: "('k, 'v) dict \<Rightarrow> 'k list" where
  "dict_keys d = map fst d"

text \<open>\<^verbatim>\<open>d.get(k)\<close>: the value, or None.\<close>

definition py_get :: "(string, pyval) dict \<Rightarrow> string \<Rightarrow> pyval" where
  "py_get d k = (case dict_get d k of None \<Rightarrow> PNone | Some v \<Rightarrow> v)"

text \<open>\<^verbatim>\<open>d[k]\<close>: the value, or KeyError.\<close>

definition py_index :: "(string, pyval) dict \<Rightarrow> string \<Rightarrow> error + pyval" where
  "py_index d k = (case dict_get d k of None \<Rightarrow> Inl KeyError | Some v \<Rightarrow> Inr v)"

text \<open>\<^verbatim>\<open>a or b\<close>.\<close>

definition py_or :: "pyval \<Rightarrow> pyval \<Rightarrow> pyval" where
  "py_or a b = (if truthy a then a else b)"

text \<open>Sequencing of fallible steps: the first error ends the computation.\<close>

definition bind :: "error + 'a \<Rightarrow> ('a \<Rightarrow> error + 'b) \<Rightarrow> error + 'b" where
  "bind r f = (case r of Inl e \<Rightarrow> Inl e | Inr v \<Rightarrow> f v)"

fun fold_err :: "('s \<Rightarrow> 'a \<Rightarrow> error + 's) \<Rightarrow> 's \<Rightarrow> 'a list \<Rightarrow> error + 's" where
  "fold_err f s [] = Inr s"
| "fold_err f s (x # xs) = (case f s x of Inl e \<Rightarrow> Inl e | Inr s' \<Rightarrow> fold_err f s' xs)"

section \<open>Reading and writing numbers\<close>

text \<open>
  \<^verbatim>\<open>int(s)\<close> and \<^verbatim>\<open>float(s)\<close> on a string, whose characters are the code points below
  256: surrounding whitespace (tab, line feed, vertical tab, form feed, carriage
  return, space, next line, no-break space; not the separators 0x1C to 0x1F) is
  stripped, a sign may lead, digits may be grouped by single underscores. \<^verbatim>\<open>int\<close> refuses
  a string of more than 4300 digits. (\<^verbatim>\<open>str\<close> of an integer of more than 4300 digits, which
  neither \<^verbatim>\<open>json.load\<close> nor a conversion of this program yields, is not modelled.)
\<close>

definition is_space :: "char \<Rightarrow> bool" where
  "is_space c =
     (c \<in> set [CHR 0x09, CHR 0x0A, CHR 0x0B, CHR 0x0C, CHR 0x0D, CHR 0x20, CHR 0x85, CHR 0xA0])"

definition strip :: "string \<Rightarrow> string" where
  "strip s = rev (dropWhile is_space (rev (dropWhile is_space s)))"

definition digit_val :: "char \<Rightarrow> nat option" where
  "digit_val c = map_of [(CHR ''0'', 0), (CHR ''1'', 1), (CHR ''2'', 2), (CHR ''3'', 3),
     (CHR ''4'', 4), (CHR ''5'', 5), (CHR ''6'', 6), (CHR ''7'', 7), (CHR ''8'', 8),
     (CHR ''9'', 9)] c"

text \<open>\<open>digit (["_"] digit)*\<close>, the whole string.\<close>

fun digitpart :: "string \<Rightarrow> nat list option" where
  "digitpart [] = None"
| "digitpart [c] = map_option (\<lambda>d. [d]) (digit_val c)"
| "digitpart (c # u # cs) =
     (case digit_val c of
        None \<Rightarrow> None
      | Some d \<Rightarrow> map_option ((#) d)
          (if u = CHR ''_'' then digitpart cs else digitpart (u # cs)))"

definition nat_of_digits :: "nat list \<Rightarrow> nat" where
  "nat_of_digits ds = foldl (\<lambda>a d. 10 * a + d) 0 ds"

definition split_sign :: "string \<Rightarrow> bool \<times> string" where
  "split_sign s =
     (case s of
        [] \<Rightarrow> (False, [])
      | c # cs \<Rightarrow> if c = CHR ''-'' then (True, cs)
                  else if c = CHR ''+'' then (False, cs) else (False, s))"

definition py_int_of_str :: "string \<Rightarrow> error + int" where
  "py_int_of_str s =
     (let (neg, r) = split_sign (strip s) in
      case digitpart r of
        None \<Rightarrow> Inl ValueError
      | Some ds \<Rightarrow>
          if 4300 < length ds then Inl ValueError
          else Inr (if neg then - int (nat_of_digits ds) else int (nat_of_digits ds)))"

text \<open>
  A Python \<^verbatim>\<open>float\<close>: an IEEE double, held as the rational number it denotes, or one of
  the three special values. (Negative zero is not told apart from zero.)
\<close>

datatype pyfloat = Finite rat | PosInf | NegInf | NaN

definition floor_log2 :: "rat \<Rightarrow> int" where
  \<comment> \<open>for a positive rational\<close>
  "floor_log2 a =
     (let (p, q) = quotient_of a; d = bitlen p - bitlen q
      in if 2 powi d \<le> a then d else d - 1)"

definition round_half_even :: "rat \<Rightarrow> int" where
  "round_half_even x =
     (let f = \<lfloor>x\<rfloor>; r = x - of_int f
      in if r < 1 / 2 then f else if 1 / 2 < r then f + 1
         else if even f then f else f + 1)"

text \<open>
  The double nearest to a rational (ties to even), \<open>None\<close> when it is beyond the
  largest double: 53 bits of precision, exponents from -1022, subnormals below.
\<close>

definition nearest_double :: "rat \<Rightarrow> rat option" where
  "nearest_double v =
     (if v = 0 then Some 0
      else let a = \<bar>v\<bar>;
               e = max (floor_log2 a) (- 1022);
               q = 2 powi (e - 52);
               r = of_int (round_half_even (a / q)) * q
           in if 2 powi 1024 \<le> r then None else Some (if v < 0 then - r else r))"

definition round_to_double :: "rat \<Rightarrow> pyfloat" where
  "round_to_double v =
     (case nearest_double v of
        Some r \<Rightarrow> Finite r
      | None \<Rightarrow> if v < 0 then NegInf else PosInf)"

definition lower :: "char \<Rightarrow> char" where
  \<comment> \<open>lower case of the letters of "infinity" and "nan"; other characters unchanged\<close>
  "lower c = (case map_of (zip ''INFTYA'' ''inftya'') c of Some l \<Rightarrow> l | None \<Rightarrow> c)"

definition is_exp_mark :: "char \<Rightarrow> bool" where
  "is_exp_mark c = (c = CHR ''e'' \<or> c = CHR ''E'')"

text \<open>\<open>[digitpart] "." digitpart | digitpart ["."]\<close>: the digits before and after the point.\<close>

definition mantissa :: "string \<Rightarrow> (nat list \<times> nat list) option" where
  "mantissa m =
     (let ip = takeWhile (\<lambda>c. c \<noteq> CHR ''.'') m; rest = dropWhile (\<lambda>c. c \<noteq> CHR ''.'') m in
      case rest of
        [] \<Rightarrow> map_option (\<lambda>ds. (ds, [])) (digitpart ip)
      | _ # fp \<Rightarrow>
          if ip = [] then map_option (\<lambda>ds. ([], ds)) (digitpart fp)
          else if fp = [] then map_option (\<lambda>ds. (ds, [])) (digitpart ip)
          else (case (digitpart ip, digitpart fp) of
                  (Some ds, Some fs) \<Rightarrow> Some (ds, fs)
                | _ \<Rightarrow> None))"

text \<open>\<open>("e" | "E") [sign] digitpart\<close>, or nothing.\<close>

definition exponent :: "string \<Rightarrow> int option" where
  "exponent x =
     (case x of
        [] \<Rightarrow> Some 0
      | _ # ex \<Rightarrow>
          (let (neg, r) = split_sign ex in
           case digitpart r of
             None \<Rightarrow> None
           | Some ds \<Rightarrow> Some (if neg then - int (nat_of_digits ds) else int (nat_of_digits ds))))"

definition py_float_of_str :: "string \<Rightarrow> error + pyfloat" where
  "py_float_of_str s =
     (let (neg, r) = split_sign (strip s); l = map lower r in
      if l = ''inf'' \<or> l = ''infinity'' then Inr (if neg then NegInf else PosInf)
      else if l = ''nan'' then Inr NaN
      else
        (case (mantissa (takeWhile (\<lambda>c. \<not> is_exp_mark c) r),
               exponent (dropWhile (\<lambda>c. \<not> is_exp_mark c) r)) of
           (Some (ds, fs), Some ex) \<Rightarrow>
             (let v = of_nat (nat_of_digits (ds @ fs)) * 10 powi (ex - int (length fs))
              in Inr (round_to_double (if neg then - v else v)))
         | _ \<Rightarrow> Inl ValueError))"

text \<open>\<^verbatim>\<open>int(x)\<close> on a float truncates; infinities and NaN raise.\<close>

definition trunc :: "rat \<Rightarrow> int" where
  "trunc x = (if 0 \<le> x then \<lfloor>x\<rfloor> else \<lceil>x\<rceil>)"

fun py_int_of_float :: "pyfloat \<Rightarrow> error + int" where
  "py_int_of_float (Finite x) = Inr (trunc x)"
| "py_int_of_float PosInf = Inl OverflowError"
| "py_int_of_float NegInf = Inl OverflowError"
| "py_int_of_float NaN = Inl ValueError"

text \<open>\<^verbatim>\<open>round(x, 0)\<close> on a float: to the nearest integer, ties to even, still a float.\<close>

fun py_round0 :: "pyfloat \<Rightarrow> pyfloat" where
  "py_round0 (Finite x) = Finite (of_int (round_half_even x))"
| "py_round0 f = f"

text \<open>\<^verbatim>\<open>n / 1000\<close> on an int: the nearest double, OverflowError beyond the doubles.\<close>

definition py_div1000 :: "int \<Rightarrow> error + rat" where
  "py_div1000 n =
     (case nearest_double (of_int n / 1000) of None \<Rightarrow> Inl OverflowError | Some r \<Rightarrow> Inr r)"

text \<open>\<^verbatim>\<open>str(n)\<close> on an int.\<close>

fun str_nat :: "nat \<Rightarrow> string" where
  "str_nat n =
     (if n < 10 then [''0123456789'' ! n]
      else str_nat (n div 10) @ [''0123456789'' ! (n mod 10)])"

declare str_nat.simps [simp del]

definition str_int :: "int \<Rightarrow> string" where
  "str_int i = (if i < 0 then CHR ''-'' # str_nat (nat (- i)) else str_nat (nat i))"

fun py_str :: "pyval \<Rightarrow> string" where
  "py_str PNone = ''None''"
| "py_str (PInt n) = str_int n"
| "py_str (PStr s) = s"

text \<open>
  \<^verbatim>\<open>int(v)\<close> on a telemetry value.
\<close>

fun py_int :: "pyval \<Rightarrow> error + int" where
  "py_int PNone = Inl TypeError"
| "py_int (PInt n) = Inr n"
| "py_int (PStr s) = py_int_of_str s"

section \<open>Time stamps\<close>

text \<open>
  \<^verbatim>\<open>datetime.datetime.fromtimestamp(ts / 1000, datetime.timezone.utc).strftime(
  "%Y-%m-%dT%H:%M:%S.000Z")\<close> on a timestamp in milliseconds. The date of a day number
  is the proleptic Gregorian one. Python's \<^verbatim>\<open>datetime\<close> covers the years 1 to 9999 and
  raises outside (ValueError; OverflowError for magnitudes beyond the platform's time
  type, which the model does not tell apart). A value that is not a number makes the
  division raise TypeError.
\<close>

definition civil_from_days :: "int \<Rightarrow> int \<times> int \<times> int" where
  "civil_from_days days =
     (let z = days + 719468;
          era = z div 146097;
          doe = z mod 146097;
          yoe = (doe - doe div 1460 + doe div 36524 - doe div 146096) div 365;
          doy = doe - (365 * yoe + yoe div 4 - yoe div 100);
          mp = (5 * doy + 2) div 153;
          d = doy - (153 * mp + 2) div 5 + 1;
          m = (if mp < 10 then mp + 3 else mp - 9);
          y = yoe + era * 400 + (if m \<le> 2 then 1 else 0)
      in (y, m, d))"

definition pad :: "nat \<Rightarrow> int \<Rightarrow> string" where
  "pad n i = replicate (n - length (str_int i)) (CHR ''0'') @ str_int i"

definition strftime_utc :: "int \<Rightarrow> string" where
  "strftime_utc ms =
     (let s = ms div 1000;
          sod = s mod 86400;
          (y, m, d) = civil_from_days (s div 86400)
      in pad 4 y @ ''-'' @ pad 2 m @ ''-'' @ pad 2 d @ ''T'' @ pad 2 (sod div 3600) @ '':''
         @ pad 2 (sod mod 3600 div 60) @ '':'' @ pad 2 (sod mod 60) @ ''.000Z'')"

definition in_datetime_range :: "int \<Rightarrow> bool" where
  "in_datetime_range ms = (- 62135596800000 \<le> ms \<and> ms \<le> 253402300799999)"

fun utc_time :: "pyval \<Rightarrow> error + string" where
  "utc_time (PInt ms) = (if in_datetime_range ms then Inr (strftime_utc ms) else Inl ValueError)"
| "utc_time v = Inl TypeError"

section \<open>The telemetry merger\<close>

type_synonym entry = "(string, pyval) dict"

type_synonym merged = "(int, entry) dict"

text \<open>
  \<^verbatim>\<open>min(xs, key=k)\<close> on a non-empty list \<open>x # xs\<close>: the first element with the least key
  (the candidate is replaced only by an element with a strictly smaller key).
\<close>

fun min_key :: "('a \<Rightarrow> int) \<Rightarrow> 'a \<Rightarrow> 'a list \<Rightarrow> 'a" where
  "min_key k best [] = best"
| "min_key k best (x # xs) = min_key k (if k x < k best then x else best) xs"

text \<open>
  \<^verbatim>\<open>find_nearest_time\<close>: \<^verbatim>\<open>min\<close> of an empty list raises ValueError before the key
  function is called; otherwise \<^verbatim>\<open>timestamp - ts\<close> raises TypeError unless \<open>ts\<close> is a number.
\<close>

definition find_nearest_time :: "pyval \<Rightarrow> int list \<Rightarrow> error + int" where
  "find_nearest_time ts timestamps =
     (case timestamps of
        [] \<Rightarrow> Inl ValueError
      | x # xs \<Rightarrow>
          (case ts of
             PInt t \<Rightarrow> Inr (min_key (\<lambda>timestamp. \<bar>timestamp - t\<bar>) x xs)
           | _ \<Rightarrow> Inl TypeError))"

text \<open>The body of the first loop of \<^verbatim>\<open>merge_location_and_live_data\<close>, for one position fix.\<close>

definition location_step :: "merged \<Rightarrow> entry \<Rightarrow> error + merged" where
  "location_step merged_data e =
     bind (py_index e ''start_time'') (\<lambda>st.
     bind (utc_time st) (\<lambda>time.
     bind (py_index e ''latitude'') (\<lambda>lat.
     bind (py_index e ''longitude'') (\<lambda>lon.
       case st of
         PInt k \<Rightarrow> Inr (dict_set merged_data k
            [(''time'', PStr time), (''latitude'', lat), (''longitude'', lon),
             (''altitude'', py_get e ''altitude'')])
       | _ \<Rightarrow> Inl TypeError))))"

text \<open>
  \<^verbatim>\<open>map(lambda d: d["start_time"], locationdata)\<close>. The line is reached after the first
  loop has gone through every position fix, so every one has an integer \<^verbatim>\<open>start_time\<close>.
\<close>

definition start_times :: "entry list \<Rightarrow> int list" where
  "start_times locationdata =
     concat (map (\<lambda>d. case dict_get d ''start_time'' of Some (PInt k) \<Rightarrow> [k] | _ \<Rightarrow> [])
       locationdata)"

text \<open>
  \<^verbatim>\<open>ts = entry.get("start_time") or entry.get("StartTime")\<close>, then
  \<^verbatim>\<open>ts if ts in merged_data else find_nearest_time(ts, timestamps)\<close>. The keys of
  \<open>merged_data\<close> are integers, so None or a string is never among them.
\<close>

definition sample_time :: "entry \<Rightarrow> pyval" where
  "sample_time e = py_or (py_get e ''start_time'') (py_get e ''StartTime'')"

definition resolve :: "merged \<Rightarrow> int list \<Rightarrow> entry \<Rightarrow> error + int" where
  "resolve merged_data timestamps e =
     (case sample_time e of
        PInt t \<Rightarrow> if dict_has merged_data t then Inr t
                  else find_nearest_time (PInt t) timestamps
      | ts \<Rightarrow> find_nearest_time ts timestamps)"

definition payload_keys :: "string list" where
  "payload_keys = [''distance'', ''cadence'', ''heart_rate'', ''speed'']"

text \<open>\<^verbatim>\<open>{key: entry.get(key) for key in [...] if entry.get(key)}\<close>\<close>

definition payload :: "entry \<Rightarrow> entry" where
  "payload e = map (\<lambda>key. (key, py_get e key)) (filter (\<lambda>key. truthy (py_get e key)) payload_keys)"

text \<open>\<^verbatim>\<open>d.update(other)\<close>\<close>

definition dict_update :: "('k, 'v) dict \<Rightarrow> ('k, 'v) dict \<Rightarrow> ('k, 'v) dict" where
  "dict_update d other = foldl (\<lambda>acc (k, v). dict_set acc k v) d other"

text \<open>
  The body of the second loop, for one sample. The sample's own \<^verbatim>\<open>heart_rate\<close> is
  overwritten by its integer value, or by None when it has none. (Each sample of the
  list is an object of its own, as \<^verbatim>\<open>json.load\<close> makes them.)
\<close>

definition heart_rate_of :: "entry \<Rightarrow> error + pyval" where
  \<comment> \<open>\<^verbatim>\<open>int(entry["heart_rate"]) if "heart_rate" in entry else None\<close>\<close>
  "heart_rate_of e =
     (case dict_get e ''heart_rate'' of
        None \<Rightarrow> Inr PNone
      | Some v \<Rightarrow> bind (py_int v) (\<lambda>n. Inr (PInt n)))"

definition live_step :: "int list \<Rightarrow> merged \<Rightarrow> entry \<Rightarrow> error + merged" where
  "live_step timestamps merged_data e =
     bind (resolve merged_data timestamps e) (\<lambda>ts.
     bind (utc_time (PInt ts)) (\<lambda>time.
     bind (heart_rate_of e) (\<lambda>hr.
       let e' = dict_set e ''heart_rate'' hr;
           md = (if dict_has merged_data ts then merged_data
                 else dict_set merged_data ts [(''time'', PStr time)])
       in case dict_get md ts of
            None \<Rightarrow> Inl KeyError
          | Some d \<Rightarrow> Inr (dict_set md ts (dict_update d (payload e'))))))"

definition merge_location_and_live_data :: "entry list \<Rightarrow> entry list \<Rightarrow> error + merged" where
  "merge_location_and_live_data locationdata livedata =
     bind (fold_err location_step [] locationdata) (\<lambda>merged_data.
       fold_err (live_step (sort (start_times locationdata))) merged_data livedata)"

section \<open>The document tree\<close>

text \<open>
  An \<^verbatim>\<open>lxml\<close> element: tag (a qualified tag in the notation \<^verbatim>\<open>{namespace}name\<close>),
  attributes, text and children. The text of an element is a string, or the \<^verbatim>\<open>str\<close>
  of a float, which is kept as the float it renders (\<open>FloatText\<close>). The elements given
  to a function are objects of their own, attached nowhere else. The serialisation of
  the finished tree to bytes is not modelled: a document is its tree.
\<close>

datatype xtext = Text string | FloatText rat

datatype xml = Element (tag: string) (attrib: "(string \<times> string) list")
  (etext: "xtext option") (children: "xml list")

text \<open>
  \<^verbatim>\<open>lxml\<close> takes a string as text or as the value of an attribute only if it is
  XML-compatible, and raises ValueError otherwise: no NUL and no control character
  other than tab, line feed and carriage return. (Of the characters beyond ASCII it
  refuses the surrogates, U+FFFE and U+FFFF, which are not told apart here.)
\<close>

definition control_chars :: "char list" where
  "control_chars =
     [CHR 0x00, CHR 0x01, CHR 0x02, CHR 0x03, CHR 0x04, CHR 0x05, CHR 0x06, CHR 0x07, CHR 0x08,
      CHR 0x0B, CHR 0x0C, CHR 0x0E, CHR 0x0F, CHR 0x10, CHR 0x11, CHR 0x12, CHR 0x13, CHR 0x14,
      CHR 0x15, CHR 0x16, CHR 0x17, CHR 0x18, CHR 0x19, CHR 0x1A, CHR 0x1B, CHR 0x1C, CHR 0x1D,
      CHR 0x1E, CHR 0x1F]"

definition xml_ok :: "string \<Rightarrow> bool" where
  "xml_ok s = list_all (\<lambda>c. c \<notin> set control_chars) s"

definition checked :: "string \<Rightarrow> error + string" where
  "checked s = (if xml_ok s then Inr s else Inl ValueError)"

definition SubElement :: "string \<Rightarrow> string \<Rightarrow> xml" where
  \<comment> \<open>the element that \<^verbatim>\<open>etree.SubElement(parent, t).text = s\<close> appends, once \<open>s\<close> is accepted\<close>
  "SubElement t s = Element t [] (Some (Text s)) []"

definition text_child :: "string \<Rightarrow> string \<Rightarrow> error + xml" where
  \<comment> \<open>\<^verbatim>\<open>etree.SubElement(parent, t).text = s\<close> for a string \<open>s\<close> from the input\<close>
  "text_child t s = bind (checked s) (\<lambda>s'. Inr (SubElement t s'))"


definition ns3 :: string where
  "ns3 = ''http://www.garmin.com/xmlschemas/ActivityExtension/v2''"

definition ns3_tag :: "string \<Rightarrow> string" where
  "ns3_tag name = ''{'' @ ns3 @ ''}'' @ name"

section \<open>The lap builder\<close>

text \<open>The truth value of an \<^verbatim>\<open>Optional[str]\<close>: the string when it is there and not empty.\<close>

definition nonempty :: "string option \<Rightarrow> string option" where
  "nonempty v = (case v of None \<Rightarrow> None | Some s \<Rightarrow> if s = [] then None else Some s)"

definition optional_child :: "string \<Rightarrow> string option \<Rightarrow> error + xml list" where
  \<comment> \<open>\<^verbatim>\<open>if v: etree.SubElement(lap, t).text = v\<close>\<close>
  "optional_child t v =
     (case nonempty v of
        None \<Rightarrow> Inr []
      | Some s \<Rightarrow> bind (text_child t s) (\<lambda>e. Inr [e]))"

definition seconds_of :: "string \<Rightarrow> error + rat" where
  \<comment> \<open>\<^verbatim>\<open>int(duration) / 1000\<close>\<close>
  "seconds_of s = bind (py_int_of_str s) py_div1000"

definition rounded_of :: "string \<Rightarrow> error + int" where
  \<comment> \<open>\<^verbatim>\<open>int(round(float(calories), 0))\<close>\<close>
  "rounded_of s = bind (py_float_of_str s) (\<lambda>f. py_int_of_float (py_round0 f))"

definition truncated_of :: "string \<Rightarrow> error + int" where
  \<comment> \<open>\<^verbatim>\<open>int(float(s))\<close>\<close>
  "truncated_of s = bind (py_float_of_str s) py_int_of_float"

text \<open>
  The text of \<^verbatim>\<open>TotalTimeSeconds\<close>, \<^verbatim>\<open>Calories\<close> and \<^verbatim>\<open>Value\<close> is the \<^verbatim>\<open>str\<close> of a number
  that the builder has computed; \<^verbatim>\<open>lxml\<close> accepts it always.
\<close>

definition total_time :: "string option \<Rightarrow> error + xml list" where
  \<comment> \<open>\<^verbatim>\<open>TotalTimeSeconds\<close> with the text \<^verbatim>\<open>str(int(duration) / 1000)\<close>\<close>
  "total_time duration =
     (case nonempty duration of
        None \<Rightarrow> Inr []
      | Some s \<Rightarrow>
          bind (seconds_of s) (\<lambda>secs.
            Inr [Element ''TotalTimeSeconds'' [] (Some (FloatText secs)) []]))"

definition calories_child :: "string option \<Rightarrow> error + xml list" where
  \<comment> \<open>\<^verbatim>\<open>Calories\<close> with the text \<^verbatim>\<open>str(int(round(float(calories), 0)))\<close>\<close>
  "calories_child calories =
     (case nonempty calories of
        None \<Rightarrow> Inr []
      | Some s \<Rightarrow> bind (rounded_of s) (\<lambda>n. Inr [SubElement ''Calories'' (str_int n)]))"

definition bpm :: "string \<Rightarrow> string \<Rightarrow> error + xml list" where
  \<comment> \<open>a heart-rate element with \<^verbatim>\<open>Value\<close> \<^verbatim>\<open>str(int(float(s)))\<close>\<close>
  "bpm t s =
     bind (truncated_of s) (\<lambda>n. Inr [Element t [] None [SubElement ''Value'' (str_int n)]])"

definition hr_child :: "string \<Rightarrow> string option \<Rightarrow> string option \<Rightarrow> error + xml list" where
  \<comment> \<open>\<^verbatim>\<open>if v and avg_hr != "0.0":\<close> the heart-rate element \<open>t\<close> of \<open>v\<close>\<close>
  "hr_child t v avg_hr =
     (case nonempty v of
        None \<Rightarrow> Inr []
      | Some s \<Rightarrow> if avg_hr \<noteq> Some ''0.0'' then bpm t s else Inr [])"

definition lx_child :: "string \<Rightarrow> string option \<Rightarrow> error + xml list" where
  \<comment> \<open>\<^verbatim>\<open>if v and v != "0.0": etree.SubElement(lx, ns3_tag(name)).text = v\<close>\<close>
  "lx_child name v =
     (case nonempty v of
        None \<Rightarrow> Inr []
      | Some s \<Rightarrow>
          if s \<noteq> ''0.0'' then bind (text_child (ns3_tag name) s) (\<lambda>e. Inr [e]) else Inr [])"

definition extensions ::
  "string option \<Rightarrow> string option \<Rightarrow> string option \<Rightarrow> error + xml list" where
  "extensions avg_speed avg_cadence max_cadence =
     (if nonempty avg_speed \<noteq> None \<or> nonempty avg_cadence \<noteq> None
         \<or> nonempty max_cadence \<noteq> None
      then bind (lx_child ''AvgSpeed'' avg_speed) (\<lambda>a.
           bind (lx_child ''AvgRunCadence'' avg_cadence) (\<lambda>b.
           bind (lx_child ''MaxRunCadence'' max_cadence) (\<lambda>c.
             Inr [Element ''Extensions'' [] None
                    [Element (ns3_tag ''LX'') [] None (a @ b @ c)]])))
      else Inr [])"

text \<open>
  \<^verbatim>\<open>create_lap\<close>. The element is made with its attribute first, then the children are
  appended in the order of the source; the test before \<^verbatim>\<open>MaximumHeartRateBpm\<close> is
  \<^verbatim>\<open>max_hr and avg_hr != "0.0"\<close>, as the source has it.
\<close>

definition create_lap ::
  "string \<Rightarrow> string option \<Rightarrow> string option \<Rightarrow> string option \<Rightarrow> string option \<Rightarrow>
   string option \<Rightarrow> string option \<Rightarrow> string option \<Rightarrow> string option \<Rightarrow> string option \<Rightarrow>
   error + xml" where
  "create_lap start_time duration distance calories avg_hr max_hr avg_speed max_speed
     avg_cadence max_cadence =
     bind (checked start_time) (\<lambda>st.
     bind (total_time duration) (\<lambda>tts.
     bind (optional_child ''DistanceMeters'' distance) (\<lambda>dist.
     bind (optional_child ''MaximumSpeed'' max_speed) (\<lambda>mspeed.
     bind (calories_child calories) (\<lambda>cal.
     bind (hr_child ''AverageHeartRateBpm'' avg_hr avg_hr) (\<lambda>ahr.
     bind (hr_child ''MaximumHeartRateBpm'' max_hr avg_hr) (\<lambda>mhr.
     bind (extensions avg_speed avg_cadence max_cadence) (\<lambda>ext.
       Inr (Element ''Lap'' [(''StartTime'', st)] None
              (tts @ dist @ mspeed @ cal @ ahr @ mhr
               @ [SubElement ''Intensity'' ''Active'', SubElement ''TriggerMethod'' ''Manual'']
               @ ext))))))))))"

section \<open>Track points\<close>

text \<open>
  \<^verbatim>\<open>create_trackpoint\<close>. The text of \<^verbatim>\<open>Time\<close> is \<^verbatim>\<open>data["time"]\<close> itself: a string, or
  None (no text); \<^verbatim>\<open>lxml\<close> raises TypeError for a number. The other texts are the \<^verbatim>\<open>str\<close>
  of a value of the entry.
\<close>

fun text_of :: "pyval \<Rightarrow> error + xtext option" where
  "text_of PNone = Inr None"
| "text_of (PStr s) = bind (checked s) (\<lambda>s'. Inr (Some (Text s')))"
| "text_of (PInt n) = Inl TypeError"

definition position :: "entry \<Rightarrow> error + xml list" where
  "position data =
     (if dict_has data ''altitude'' \<and> dict_has data ''longitude''
      then bind (py_index data ''latitude'') (\<lambda>lat.
           bind (text_child ''LatitudeDegrees'' (py_str lat)) (\<lambda>la.
           bind (py_index data ''longitude'') (\<lambda>lon.
           bind (text_child ''LongitudeDegrees'' (py_str lon)) (\<lambda>lo.
             Inr [Element ''Position'' [] None [la, lo]]))))
      else Inr [])"

definition heart_rate_bpm :: "entry \<Rightarrow> error + xml list" where
  "heart_rate_bpm data =
     (case dict_get data ''heart_rate'' of
        None \<Rightarrow> Inr []
      | Some v \<Rightarrow>
          bind (text_child ''Value'' (py_str v)) (\<lambda>x. Inr [Element ''HeartRateBpm'' [] None [x]]))"

definition cadence :: "entry \<Rightarrow> error + xml list" where
  "cadence data =
     (case dict_get data ''cadence'' of
        None \<Rightarrow> Inr []
      | Some v \<Rightarrow> bind (text_child ''Cadence'' (py_str v)) (\<lambda>x. Inr [x]))"

definition create_trackpoint :: "entry \<Rightarrow> error + xml option" where
  "create_trackpoint data =
     bind (py_index data ''time'') (\<lambda>t.
     bind (text_of t) (\<lambda>time.
     bind (position data) (\<lambda>pos.
     bind (heart_rate_bpm data) (\<lambda>hr.
     bind (cadence data) (\<lambda>cad.
       let trackpoint = Element ''Trackpoint'' [] None (Element ''Time'' [] time [] # pos @ hr @ cad)
       in Inr (if length (children trackpoint) > 1 then Some trackpoint else None))))))"

section \<open>The document assembler\<close>






section \<open>The pipeline driver\<close>






text \<open>The loop over the merged entries in \<^verbatim>\<open>prepare_exercise_data\<close>; an element with no
  children is false.\<close>

definition collect_trackpoint :: "xml option list \<Rightarrow> int \<times> entry \<Rightarrow> error + xml option list" where
  "collect_trackpoint trackpoints d =
     bind (create_trackpoint (snd d)) (\<lambda>trackpoint.
       case trackpoint of
         None \<Rightarrow> Inr trackpoints
       | Some p \<Rightarrow> Inr (if children p \<noteq> [] then trackpoints @ [Some p] else trackpoints))"








section \<open>Observations on documents\<close>

text \<open>
  What the properties below read off a tree: the tags of a list of elements, and the
  children of the elements with a given tag. An optional string is present when it is
  neither None nor empty (Python's truth value); \<open>converts f v\<close> says that a present
  value is one the conversion \<open>f\<close> accepts.
\<close>

definition tags :: "xml list \<Rightarrow> string list" where
  "tags es = map tag es"

definition inside :: "string \<Rightarrow> xml list \<Rightarrow> xml list" where
  "inside t es = concat (map children (filter (\<lambda>e. tag e = t) es))"

definition present :: "string option \<Rightarrow> bool" where
  "present v = (nonempty v \<noteq> None)"

definition converts :: "(string \<Rightarrow> error + 'a) \<Rightarrow> string option \<Rightarrow> bool" where
  "converts f v =
     (case nonempty v of
        None \<Rightarrow> True
      | Some s \<Rightarrow> (case f s of Inl e \<Rightarrow> False | Inr x \<Rightarrow> True))"

text \<open>
  The keys of a dictionary that is filled from a list of keys: each key stands where it
  first occurred (\<open>keys_from\<close> starts from keys that are there already). An entry made
  from the position fix of timestamp \<open>k\<close> has the formatted time of \<open>k\<close> and the keys of
  the position; \<open>fixes_ok\<close> says that every entry of a merged dictionary is such an
  entry, under a key that \<^verbatim>\<open>datetime\<close> can format.
\<close>

definition keys_from :: "'a list \<Rightarrow> 'a list \<Rightarrow> 'a list" where
  "keys_from ks xs = fold (\<lambda>x ks. if x \<in> set ks then ks else ks @ [x]) xs ks"

definition first_occurrences :: "'a list \<Rightarrow> 'a list" where
  "first_occurrences xs = keys_from [] xs"

definition fix_entry :: "int \<Rightarrow> entry \<Rightarrow> bool" where
  "fix_entry k d =
     (dict_get d ''time'' = Some (PStr (strftime_utc k))
      \<and> dict_has d ''latitude'' \<and> dict_has d ''longitude'' \<and> dict_has d ''altitude'')"

definition fixes_ok :: "merged \<Rightarrow> bool" where
  "fixes_ok md = (\<forall>(k, d)\<in>set md. in_datetime_range k \<and> fix_entry k d)"




section \<open>The nearest-timestamp search\<close>

lemma min_key_mem: "min_key k b xs \<in> set (b # xs)"
  by (induction xs arbitrary: b) (auto split: if_splits)

lemma min_key_le: "y \<in> set (b # xs) \<Longrightarrow> k (min_key k b xs) \<le> k y"
proof (induction xs arbitrary: b y)
  case Nil
  then show ?case by simp
next
  case (Cons x xs)
  let ?b = "if k x < k b then x else b"
  have step: "k (min_key k ?b xs) \<le> k ?b"
    using Cons.IH [of ?b ?b] by simp
  from Cons.prems consider "y = b" | "y = x" | "y \<in> set xs" by auto
  then show ?case
  proof cases
    case 1
    with step show ?thesis by (auto split: if_splits)
  next
    case 2
    with step show ?thesis by (auto split: if_splits)
  next
    case 3
    then show ?thesis using Cons.IH [of y ?b] by simp
  qed
qed

lemma min_key_first:
  "sorted (b # xs) \<Longrightarrow> y \<in> set (b # xs) \<Longrightarrow> k y = k (min_key k b xs) \<Longrightarrow> min_key k b xs \<le> (y::int)"
proof (induction xs arbitrary: b y)
  case Nil
  then show ?case by simp
next
  case (Cons x xs)
  let ?b = "if k x < k b then x else b"
  let ?r = "min_key k ?b xs"
  have srt: "sorted (?b # xs)" using Cons.prems(1) by auto
  have r_le: "k ?r \<le> k ?b" using min_key_le [of ?b ?b xs k] by simp
  have r_eq: "min_key k b (x # xs) = ?r" by simp
  from Cons.prems(2) consider "y \<in> set (?b # xs)" | "y = b" "k x < k b"
    | "y = x" "\<not> k x < k b"
    by (cases "k x < k b") auto
  then show ?case
  proof cases
    case 1
    then show ?thesis using Cons.IH [of ?b y] srt Cons.prems(3) by simp
  next
    case 2
    then show ?thesis using r_le Cons.prems(3) by simp
  next
    case 3
    then have kb: "k ?r = k b" using r_le Cons.prems(3) by simp
    have "?r \<le> b" using Cons.IH [of ?b b] srt 3 kb by simp
    moreover have "b \<le> x" using Cons.prems(1) by simp
    ultimately show ?thesis using 3 r_eq by simp
  qed
qed

text \<open>
  Claim C10. On a non-empty list of timestamps in ascending order, and for every integer
  target, \<open>find_nearest_time\<close> returns a timestamp of the list whose absolute difference
  to the target is the least, and every timestamp of the list at the same distance is
  at least as large: of two equidistant candidates the earlier one is returned.
\<close>

theorem find_nearest_time_sorted:
  assumes "timestamps \<noteq> []" and "sorted timestamps"
  shows "\<exists>r. find_nearest_time (PInt ts) timestamps = Inr r \<and> r \<in> set timestamps
           \<and> (\<forall>x\<in>set timestamps. \<bar>r - ts\<bar> \<le> \<bar>x - ts\<bar>)
           \<and> (\<forall>x\<in>set timestamps. \<bar>x - ts\<bar> = \<bar>r - ts\<bar> \<longrightarrow> r \<le> x)"
proof -
  from assms(1) obtain b xs where tl: "timestamps = b # xs" by (cases timestamps) auto
  let ?k = "\<lambda>timestamp. \<bar>timestamp - ts\<bar>"
  let ?r = "min_key ?k b xs"
  have "find_nearest_time (PInt ts) timestamps = Inr ?r"
    by (simp add: find_nearest_time_def tl)
  moreover have "?r \<in> set timestamps" unfolding tl by (rule min_key_mem)
  moreover have "\<forall>x\<in>set timestamps. ?k ?r \<le> ?k x"
    unfolding tl using min_key_le [of _ b xs ?k] by blast
  moreover have "\<forall>x\<in>set timestamps. ?k x = ?k ?r \<longrightarrow> ?r \<le> x"
    using min_key_first [of b xs _ ?k] assms(2) unfolding tl by blast
  ultimately show ?thesis by blast
qed

theorem find_nearest_time_sorted_witness:
  "[1000, 2000, 3000] \<noteq> ([]::int list) \<and> sorted [1000, 2000, 3000::int]
   \<and> find_nearest_time (PInt 2500) [1000, 2000, 3000] = Inr 2000"
  using find_nearest_time_sorted [of "[1000, 2000, 3000]" 2500]
  by (simp add: find_nearest_time_def)

section \<open>The lap builder: which fields a lap has\<close>

lemma bind_Inr: "bind r f = Inr y \<longleftrightarrow> (\<exists>x. r = Inr x \<and> f x = Inr y)"
  by (cases r) (simp_all add: bind_def)

lemma bind_Inl: "bind r f = Inl e \<longleftrightarrow> r = Inl e \<or> (\<exists>x. r = Inr x \<and> f x = Inl e)"
  by (cases r) (simp_all add: bind_def)

lemma tags_append: "tags (xs @ ys) = tags xs @ tags ys"
  by (simp add: tags_def)

lemma text_child_Inr: "text_child t s = Inr e \<longleftrightarrow> xml_ok s \<and> e = SubElement t s"
  by (auto simp: text_child_def checked_def bind_def)

lemma tags_optional_child:
  "optional_child t v = Inr es \<Longrightarrow> tags es = (if nonempty v = None then [] else [t])"
  by (auto simp: optional_child_def tags_def SubElement_def bind_Inr text_child_Inr
      split: option.splits)

lemma tags_total_time:
  "total_time v = Inr es \<Longrightarrow> tags es = (if nonempty v = None then [] else [''TotalTimeSeconds''])"
  by (auto simp: total_time_def tags_def bind_Inr split: option.splits)

lemma tags_calories_child:
  "calories_child v = Inr es \<Longrightarrow> tags es = (if nonempty v = None then [] else [''Calories''])"
  by (auto simp: calories_child_def tags_def bind_Inr SubElement_def split: option.splits)

lemma tags_hr_child:
  "hr_child t v a = Inr es \<Longrightarrow>
   tags es = (if nonempty v = None \<or> a = Some ''0.0'' then [] else [t])"
  by (auto simp: hr_child_def bpm_def tags_def bind_Inr split: option.splits if_splits)

lemma tags_extensions:
  "extensions s c m = Inr es \<Longrightarrow> tags es =
     (if nonempty s = None \<and> nonempty c = None \<and> nonempty m = None then [] else [''Extensions''])"
  by (auto simp: extensions_def tags_def bind_Inr split: if_splits)

lemma create_lap_children:
  assumes "create_lap start_time duration distance calories avg_hr max_hr avg_speed max_speed
     avg_cadence max_cadence = Inr lap"
  shows "\<exists>tts dist mspeed cal ahr mhr ext.
     total_time duration = Inr tts \<and> optional_child ''DistanceMeters'' distance = Inr dist
     \<and> optional_child ''MaximumSpeed'' max_speed = Inr mspeed
     \<and> calories_child calories = Inr cal
     \<and> hr_child ''AverageHeartRateBpm'' avg_hr avg_hr = Inr ahr
     \<and> hr_child ''MaximumHeartRateBpm'' max_hr avg_hr = Inr mhr
     \<and> extensions avg_speed avg_cadence max_cadence = Inr ext
     \<and> children lap = tts @ dist @ mspeed @ cal @ ahr @ mhr
               @ [SubElement ''Intensity'' ''Active'', SubElement ''TriggerMethod'' ''Manual'']
               @ ext"
  using assms unfolding create_lap_def bind_Inr by auto

lemma create_lap_tags:
  assumes "create_lap start_time duration distance calories avg_hr max_hr avg_speed max_speed
     avg_cadence max_cadence = Inr lap"
  shows "tags (children lap) =
     (if nonempty duration = None then [] else [''TotalTimeSeconds''])
     @ (if nonempty distance = None then [] else [''DistanceMeters''])
     @ (if nonempty max_speed = None then [] else [''MaximumSpeed''])
     @ (if nonempty calories = None then [] else [''Calories''])
     @ (if nonempty avg_hr = None \<or> avg_hr = Some ''0.0'' then [] else [''AverageHeartRateBpm''])
     @ (if nonempty max_hr = None \<or> avg_hr = Some ''0.0'' then [] else [''MaximumHeartRateBpm''])
     @ [''Intensity'', ''TriggerMethod'']
     @ (if nonempty avg_speed = None \<and> nonempty avg_cadence = None \<and> nonempty max_cadence = None
        then [] else [''Extensions''])"
proof -
  from create_lap_children [OF assms] obtain tts dist mspeed cal ahr mhr ext where
    p: "total_time duration = Inr tts" "calories_child calories = Inr cal"
       "hr_child ''AverageHeartRateBpm'' avg_hr avg_hr = Inr ahr"
       "hr_child ''MaximumHeartRateBpm'' max_hr avg_hr = Inr mhr"
       "optional_child ''DistanceMeters'' distance = Inr dist"
       "optional_child ''MaximumSpeed'' max_speed = Inr mspeed"
       "extensions avg_speed avg_cadence max_cadence = Inr ext"
    and c: "children lap = tts @ dist @ mspeed @ cal @ ahr @ mhr
               @ [SubElement ''Intensity'' ''Active'', SubElement ''TriggerMethod'' ''Manual'']
               @ ext"
    by blast
  have two: "tags [SubElement ''Intensity'' ''Active'', SubElement ''TriggerMethod'' ''Manual'']
      = [''Intensity'', ''TriggerMethod'']"
    by (simp add: tags_def SubElement_def)
  show ?thesis
    unfolding c tags_append tags_total_time [OF p(1)] tags_calories_child [OF p(2)]
      tags_hr_child [OF p(3)] tags_hr_child [OF p(4)] tags_optional_child [OF p(5)]
      tags_optional_child [OF p(6)] tags_extensions [OF p(7)] two
    by (rule refl)
qed

lemmas parse_eval = py_float_of_str_def py_int_of_str_def strip_def is_space_def split_sign_def
  lower_def is_exp_mark_def mantissa_def exponent_def digit_val_def nat_of_digits_def
  round_to_double_def nearest_double_def floor_log2_def round_half_even_def bitlen_def
  compute_floorlog Let_def py_div1000_def trunc_def str_int_def str_nat.simps

lemmas xml_eval = checked_def xml_ok_def control_chars_def text_child_def

lemmas lap_eval = create_lap_def total_time_def calories_child_def hr_child_def bpm_def
  seconds_of_def rounded_of_def truncated_of_def
  optional_child_def extensions_def lx_child_def nonempty_def bind_def xml_eval

lemma inside_append: "inside t (xs @ ys) = inside t xs @ inside t ys"
  by (simp add: inside_def)

lemma inside_none: "t \<notin> set (tags xs) \<Longrightarrow> inside t xs = []"
  by (induction xs) (auto simp: inside_def tags_def)

lemma tags_lx_child:
  "lx_child n v = Inr es \<Longrightarrow>
   tags es = (if nonempty v = None \<or> v = Some ''0.0'' then [] else [ns3_tag n])"
  by (auto simp: lx_child_def tags_def SubElement_def nonempty_def bind_Inr text_child_Inr
      split: option.splits if_splits)

lemma inside_extensions:
  assumes "extensions s c m = Inr es"
  shows "tags (inside (ns3_tag ''LX'') (inside ''Extensions'' es)) =
     (if nonempty s = None \<or> s = Some ''0.0'' then [] else [ns3_tag ''AvgSpeed''])
     @ (if nonempty c = None \<or> c = Some ''0.0'' then [] else [ns3_tag ''AvgRunCadence''])
     @ (if nonempty m = None \<or> m = Some ''0.0'' then [] else [ns3_tag ''MaxRunCadence''])"
proof (cases "nonempty s = None \<and> nonempty c = None \<and> nonempty m = None")
  case True
  with assms have "es = []" by (simp add: extensions_def)
  with True show ?thesis by (simp add: inside_def tags_def)
next
  case False
  with assms obtain a b c' where
    l: "lx_child ''AvgSpeed'' s = Inr a" "lx_child ''AvgRunCadence'' c = Inr b"
       "lx_child ''MaxRunCadence'' m = Inr c'"
    and es: "es = [Element ''Extensions'' [] None [Element (ns3_tag ''LX'') [] None (a @ b @ c')]]"
    by (auto simp: extensions_def bind_Inr)
  have "inside (ns3_tag ''LX'') (inside ''Extensions'' es) = a @ b @ c'"
    unfolding es by (simp add: inside_def)
  then show ?thesis
    by (simp only: tags_append tags_lx_child [OF l(1)] tags_lx_child [OF l(2)]
        tags_lx_child [OF l(3)])
qed

lemma ns3_tag_inject: "ns3_tag a = ns3_tag b \<longleftrightarrow> a = b"
  by (simp add: ns3_tag_def)

lemma create_lap_extension_values:
  assumes "create_lap start_time duration distance calories avg_hr max_hr avg_speed max_speed
     avg_cadence max_cadence = Inr lap"
  shows "tags (inside (ns3_tag ''LX'') (inside ''Extensions'' (children lap))) =
     (if nonempty avg_speed = None \<or> avg_speed = Some ''0.0'' then [] else [ns3_tag ''AvgSpeed''])
     @ (if nonempty avg_cadence = None \<or> avg_cadence = Some ''0.0'' then []
        else [ns3_tag ''AvgRunCadence''])
     @ (if nonempty max_cadence = None \<or> max_cadence = Some ''0.0'' then []
        else [ns3_tag ''MaxRunCadence''])"
proof -
  from create_lap_children [OF assms] obtain tts dist mspeed cal ahr mhr ext where
    p: "total_time duration = Inr tts" "calories_child calories = Inr cal"
       "hr_child ''AverageHeartRateBpm'' avg_hr avg_hr = Inr ahr"
       "hr_child ''MaximumHeartRateBpm'' max_hr avg_hr = Inr mhr"
       "optional_child ''DistanceMeters'' distance = Inr dist"
       "optional_child ''MaximumSpeed'' max_speed = Inr mspeed"
       "extensions avg_speed avg_cadence max_cadence = Inr ext"
    and c: "children lap = tts @ dist @ mspeed @ cal @ ahr @ mhr
               @ [SubElement ''Intensity'' ''Active'', SubElement ''TriggerMethod'' ''Manual'']
               @ ext"
    by blast
  have n1: "inside ''Extensions'' tts = []"
    by (rule inside_none) (simp add: tags_total_time [OF p(1)])
  have n2: "inside ''Extensions'' dist = []"
    by (rule inside_none) (simp add: tags_optional_child [OF p(5)])
  have n3: "inside ''Extensions'' mspeed = []"
    by (rule inside_none) (simp add: tags_optional_child [OF p(6)])
  have n4: "inside ''Extensions'' cal = []"
    by (rule inside_none) (simp add: tags_calories_child [OF p(2)])
  have n5: "inside ''Extensions'' ahr = []"
    by (rule inside_none) (simp add: tags_hr_child [OF p(3)])
  have n6: "inside ''Extensions'' mhr = []"
    by (rule inside_none) (simp add: tags_hr_child [OF p(4)])
  have n7: "inside ''Extensions''
      [SubElement ''Intensity'' ''Active'', SubElement ''TriggerMethod'' ''Manual''] = []"
    by (simp add: inside_def SubElement_def)
  have e: "inside ''Extensions'' (children lap) = inside ''Extensions'' ext"
    by (simp only: c inside_append n1 n2 n3 n4 n5 n6 n7 append_Nil)
  show ?thesis
    unfolding e by (rule inside_extensions [OF p(7)])
qed

text \<open>
  Claim C5, as amended. In every lap that \<open>create_lap\<close> returns, a field whose input is
  absent (None or the empty string) is left out: duration, distance, maximum speed,
  calories, both heart rates and the three extension values. The average heart rate
  and the extension values are also left out when their input is the sentinel
  \<^verbatim>\<open>"0.0"\<close>. Duration, distance, maximum speed and calories are in the lap whenever
  their input is present, whatever its value. (When the maximum heart rate is in the
  lap although its input is present is not part of this statement.)
\<close>

theorem create_lap_omits_absent:
  assumes "create_lap start_time duration distance calories avg_hr max_hr avg_speed max_speed
     avg_cadence max_cadence = Inr lap"
  shows "(''TotalTimeSeconds'' \<in> set (tags (children lap)) \<longleftrightarrow> present duration)
    \<and> (''DistanceMeters'' \<in> set (tags (children lap)) \<longleftrightarrow> present distance)
    \<and> (''MaximumSpeed'' \<in> set (tags (children lap)) \<longleftrightarrow> present max_speed)
    \<and> (''Calories'' \<in> set (tags (children lap)) \<longleftrightarrow> present calories)
    \<and> (''AverageHeartRateBpm'' \<in> set (tags (children lap))
         \<longleftrightarrow> present avg_hr \<and> avg_hr \<noteq> Some ''0.0'')
    \<and> (\<not> present max_hr \<longrightarrow> ''MaximumHeartRateBpm'' \<notin> set (tags (children lap)))
    \<and> (ns3_tag ''AvgSpeed'' \<in> set (tags (inside (ns3_tag ''LX'') (inside ''Extensions'' (children lap))))
         \<longleftrightarrow> present avg_speed \<and> avg_speed \<noteq> Some ''0.0'')
    \<and> (ns3_tag ''AvgRunCadence'' \<in> set (tags (inside (ns3_tag ''LX'') (inside ''Extensions'' (children lap))))
         \<longleftrightarrow> present avg_cadence \<and> avg_cadence \<noteq> Some ''0.0'')
    \<and> (ns3_tag ''MaxRunCadence'' \<in> set (tags (inside (ns3_tag ''LX'') (inside ''Extensions'' (children lap))))
         \<longleftrightarrow> present max_cadence \<and> max_cadence \<noteq> Some ''0.0'')"
proof -
  note t = create_lap_tags [OF assms]
  note x = create_lap_extension_values [OF assms]
  have 1: "''TotalTimeSeconds'' \<in> set (tags (children lap)) \<longleftrightarrow> present duration"
    unfolding t present_def by simp
  have 2: "''DistanceMeters'' \<in> set (tags (children lap)) \<longleftrightarrow> present distance"
    unfolding t present_def by simp
  have 3: "''MaximumSpeed'' \<in> set (tags (children lap)) \<longleftrightarrow> present max_speed"
    unfolding t present_def by simp
  have 4: "''Calories'' \<in> set (tags (children lap)) \<longleftrightarrow> present calories"
    unfolding t present_def by simp
  have 5: "''AverageHeartRateBpm'' \<in> set (tags (children lap))
         \<longleftrightarrow> present avg_hr \<and> avg_hr \<noteq> Some ''0.0''"
    unfolding t present_def by simp
  have 6: "\<not> present max_hr \<longrightarrow> ''MaximumHeartRateBpm'' \<notin> set (tags (children lap))"
    unfolding t present_def by simp
  have 7: "ns3_tag ''AvgSpeed'' \<in> set (tags (inside (ns3_tag ''LX'') (inside ''Extensions'' (children lap))))
         \<longleftrightarrow> present avg_speed \<and> avg_speed \<noteq> Some ''0.0''"
    unfolding x present_def by (simp add: ns3_tag_inject)
  have 8: "ns3_tag ''AvgRunCadence'' \<in> set (tags (inside (ns3_tag ''LX'') (inside ''Extensions'' (children lap))))
         \<longleftrightarrow> present avg_cadence \<and> avg_cadence \<noteq> Some ''0.0''"
    unfolding x present_def by (simp add: ns3_tag_inject)
  have 9: "ns3_tag ''MaxRunCadence'' \<in> set (tags (inside (ns3_tag ''LX'') (inside ''Extensions'' (children lap))))
         \<longleftrightarrow> present max_cadence \<and> max_cadence \<noteq> Some ''0.0''"
    unfolding x present_def by (simp add: ns3_tag_inject)
  from 1 2 3 4 5 6 7 8 9 show ?thesis by blast
qed

text \<open>
  Against claim C5 as first stated: a duration of \<^verbatim>\<open>"0"\<close>, a distance of \<^verbatim>\<open>"0.0"\<close> and a
  maximum speed of \<^verbatim>\<open>"0.0"\<close> are all emitted, as zero.
\<close>

theorem create_lap_emits_zero_fields:
  "create_lap ''2024-05-01T10:00:00Z'' (Some ''0'') (Some ''0.0'') None None None None
     (Some ''0.0'') None None =
   Inr (Element ''Lap'' [(''StartTime'', ''2024-05-01T10:00:00Z'')] None
     [Element ''TotalTimeSeconds'' [] (Some (FloatText 0)) [],
      SubElement ''DistanceMeters'' ''0.0'', SubElement ''MaximumSpeed'' ''0.0'',
      SubElement ''Intensity'' ''Active'', SubElement ''TriggerMethod'' ''Manual''])"
  by (simp add: lap_eval parse_eval)

theorem create_lap_omits_absent_witness:
  "create_lap ''2024-05-01T10:00:00Z'' (Some ''0'') (Some ''0.0'') None (Some ''0.0'') None
     (Some ''0.0'') None None (Some ''80'') =
   Inr (Element ''Lap'' [(''StartTime'', ''2024-05-01T10:00:00Z'')] None
     [Element ''TotalTimeSeconds'' [] (Some (FloatText 0)) [],
      SubElement ''DistanceMeters'' ''0.0'',
      SubElement ''Intensity'' ''Active'', SubElement ''TriggerMethod'' ''Manual'',
      Element ''Extensions'' [] None
        [Element (ns3_tag ''LX'') [] None [SubElement (ns3_tag ''MaxRunCadence'') ''80'']]])
   \<and> present (Some ''0.0'') \<and> \<not> present None"
  using create_lap_omits_absent [of "''2024-05-01T10:00:00Z''" "Some ''0''" "Some ''0.0''" None
      "Some ''0.0''" None "Some ''0.0''" None None "Some ''80''"]
  by (simp add: lap_eval parse_eval present_def)

lemma total_time_returns: "(\<exists>es. total_time v = Inr es) \<longleftrightarrow> converts seconds_of v"
  by (auto simp: total_time_def converts_def bind_def split: option.splits sum.splits)

lemma calories_child_returns: "(\<exists>es. calories_child v = Inr es) \<longleftrightarrow> converts rounded_of v"
  by (auto simp: calories_child_def converts_def bind_def split: option.splits sum.splits)

lemma hr_child_returns:
  "(\<exists>es. hr_child t v a = Inr es) \<longleftrightarrow> (a \<noteq> Some ''0.0'' \<longrightarrow> converts truncated_of v)"
  by (auto simp: hr_child_def bpm_def converts_def bind_def split: option.splits sum.splits)

lemma optional_child_returns: "(\<exists>es. optional_child t v = Inr es) \<longleftrightarrow> converts checked v"
  by (auto simp: optional_child_def text_child_def converts_def bind_def
      split: option.splits sum.splits)

lemma lx_child_returns: "converts checked v \<Longrightarrow> \<exists>es. lx_child n v = Inr es"
  by (auto simp: lx_child_def text_child_def converts_def bind_def
      split: option.splits sum.splits)

lemma extensions_returns:
  assumes "converts checked s" and "converts checked c" and "converts checked m"
  shows "\<exists>es. extensions s c m = Inr es"
proof -
  from assms [THEN lx_child_returns] obtain a b c' where
    "lx_child ''AvgSpeed'' s = Inr a" "lx_child ''AvgRunCadence'' c = Inr b"
    "lx_child ''MaxRunCadence'' m = Inr c'"
    by blast
  then show ?thesis by (simp add: extensions_def bind_def)
qed

lemma create_lap_returns:
  "(\<exists>lap. create_lap start_time duration distance calories avg_hr max_hr avg_speed max_speed
        avg_cadence max_cadence = Inr lap) \<longleftrightarrow>
   xml_ok start_time \<and> (\<exists>a. total_time duration = Inr a)
   \<and> (\<exists>b. optional_child ''DistanceMeters'' distance = Inr b)
   \<and> (\<exists>b. optional_child ''MaximumSpeed'' max_speed = Inr b)
   \<and> (\<exists>b. calories_child calories = Inr b)
   \<and> (\<exists>c. hr_child ''AverageHeartRateBpm'' avg_hr avg_hr = Inr c)
   \<and> (\<exists>d. hr_child ''MaximumHeartRateBpm'' max_hr avg_hr = Inr d)
   \<and> (\<exists>d. extensions avg_speed avg_cadence max_cadence = Inr d)"
proof -
  have "(\<exists>st. checked start_time = Inr st) \<longleftrightarrow> xml_ok start_time"
    by (simp add: checked_def)
  then show ?thesis unfolding create_lap_def bind_Inr by blast
qed

lemma not_Inr: "(\<nexists>x. r = Inr x) \<longleftrightarrow> (\<exists>e. r = Inl e)"
  by (cases r) simp_all

text \<open>
  Claim C9, as amended. \<open>create_lap\<close> has no handler for a value that a conversion
  refuses. When the duration (converted by \<^verbatim>\<open>int\<close>), the calories (by \<^verbatim>\<open>float\<close>, \<^verbatim>\<open>round\<close> and
  \<^verbatim>\<open>int\<close>) or an average heart rate that is not the sentinel \<^verbatim>\<open>"0.0"\<close> (by \<^verbatim>\<open>float\<close> and
  \<^verbatim>\<open>int\<close>) is present and its conversion raises, the lap builder raises: the field is
  not treated as absent and there is no lap for the row. When the duration, the
  calories and both heart rates are absent or convert without an error, and the start
  time and the distance, speeds and cadences that are present are strings that
  \<^verbatim>\<open>lxml\<close> accepts, the lap builder returns a lap. (What a maximum heart rate that does
  not convert leads to depends on the test before \<^verbatim>\<open>MaximumHeartRateBpm\<close>, which reads
  the average, and is not part of this statement.)
\<close>

theorem create_lap_raises_on_unparsable:
  "((\<not> converts seconds_of duration \<or> \<not> converts rounded_of calories
      \<or> (avg_hr \<noteq> Some ''0.0'' \<and> \<not> converts truncated_of avg_hr))
     \<longrightarrow> (\<exists>e. create_lap start_time duration distance calories avg_hr max_hr avg_speed
            max_speed avg_cadence max_cadence = Inl e))
   \<and> (xml_ok start_time \<and> converts seconds_of duration \<and> converts checked distance
       \<and> converts checked max_speed \<and> converts rounded_of calories
       \<and> converts truncated_of avg_hr \<and> converts truncated_of max_hr
       \<and> converts checked avg_speed \<and> converts checked avg_cadence
       \<and> converts checked max_cadence
     \<longrightarrow> (\<exists>lap. create_lap start_time duration distance calories avg_hr max_hr avg_speed
            max_speed avg_cadence max_cadence = Inr lap))"
proof (intro conjI impI)
  assume bad: "\<not> converts seconds_of duration \<or> \<not> converts rounded_of calories
      \<or> (avg_hr \<noteq> Some ''0.0'' \<and> \<not> converts truncated_of avg_hr)"
  have "\<nexists>lap. create_lap start_time duration distance calories avg_hr max_hr avg_speed
            max_speed avg_cadence max_cadence = Inr lap"
    unfolding create_lap_returns total_time_returns calories_child_returns hr_child_returns
    using bad by blast
  then show "\<exists>e. create_lap start_time duration distance calories avg_hr max_hr avg_speed
            max_speed avg_cadence max_cadence = Inl e"
    by (simp only: not_Inr)
next
  assume good: "xml_ok start_time \<and> converts seconds_of duration \<and> converts checked distance
       \<and> converts checked max_speed \<and> converts rounded_of calories
       \<and> converts truncated_of avg_hr \<and> converts truncated_of max_hr
       \<and> converts checked avg_speed \<and> converts checked avg_cadence
       \<and> converts checked max_cadence"
  then have "\<exists>d. extensions avg_speed avg_cadence max_cadence = Inr d"
    by (intro extensions_returns) simp_all
  with good show "\<exists>lap. create_lap start_time duration distance calories avg_hr max_hr
      avg_speed max_speed avg_cadence max_cadence = Inr lap"
    unfolding create_lap_returns total_time_returns calories_child_returns hr_child_returns
      optional_child_returns
    by blast
qed

theorem create_lap_raises_on_unparsable_witness:
  "\<not> converts rounded_of (Some ''abc'')
   \<and> create_lap ''2024-05-01T10:00:00Z'' (Some ''60000'') None (Some ''abc'') (Some ''70'')
        (Some ''180'') None None None None = Inl ValueError
   \<and> xml_ok ''2024-05-01T10:00:00Z''
   \<and> converts seconds_of (Some ''60000'') \<and> converts checked (Some ''1000.5'')
   \<and> converts rounded_of (Some ''12'')
   \<and> converts truncated_of (Some ''70'') \<and> converts truncated_of (Some ''180'')
   \<and> create_lap ''2024-05-01T10:00:00Z'' (Some ''60000'') (Some ''1000.5'') (Some ''12'')
        (Some ''70'') (Some ''180'') None None None None =
       Inr (Element ''Lap'' [(''StartTime'', ''2024-05-01T10:00:00Z'')] None
         [Element ''TotalTimeSeconds'' [] (Some (FloatText 60)) [],
          SubElement ''DistanceMeters'' ''1000.5'',
          SubElement ''Calories'' ''12'',
          Element ''AverageHeartRateBpm'' [] None [SubElement ''Value'' ''70''],
          Element ''MaximumHeartRateBpm'' [] None [SubElement ''Value'' ''180''],
          SubElement ''Intensity'' ''Active'', SubElement ''TriggerMethod'' ''Manual''])"
  using create_lap_raises_on_unparsable [where start_time = "''2024-05-01T10:00:00Z''"
      and duration = "Some ''60000''" and distance = None and calories = "Some ''abc''"
      and avg_hr = "Some ''70''" and max_hr = "Some ''180''" and avg_speed = None
      and max_speed = None and avg_cadence = None and max_cadence = None]
    create_lap_raises_on_unparsable [where start_time = "''2024-05-01T10:00:00Z''"
      and duration = "Some ''60000''" and distance = "Some ''1000.5''"
      and calories = "Some ''12''" and avg_hr = "Some ''70''" and max_hr = "Some ''180''"
      and avg_speed = None and max_speed = None and avg_cadence = None
      and max_cadence = None]
  by (simp add: lap_eval parse_eval converts_def py_round0.simps)

text \<open>
  Against claim C9 as first stated: with calories \<^verbatim>\<open>"abc"\<close> the lap builder raises
  ValueError; the field is not treated as absent and there is no lap.
\<close>

theorem create_lap_unparsable_calories:
  "create_lap ''2024-05-01T10:00:00Z'' (Some ''60000'') None (Some ''abc'') None None None None
     None None = Inl ValueError"
  by (simp add: lap_eval parse_eval)

text \<open>
  Claim C4 says that \<^verbatim>\<open>MaximumHeartRateBpm\<close> is in the lap exactly when the maximum
  heart rate is present and not the sentinel \<^verbatim>\<open>"0.0"\<close>. The test in the source compares
  the average heart rate with the sentinel, not the maximum. So a maximum of \<^verbatim>\<open>"180"\<close>
  beside an average of \<^verbatim>\<open>"0.0"\<close> is left out, and a maximum of \<^verbatim>\<open>"0.0"\<close> beside no
  average is emitted with the value 0.
\<close>

theorem create_lap_max_hr_tests_avg_hr:
  "create_lap ''2024-05-01T10:00:00Z'' None None None (Some ''0.0'') (Some ''180'') None None
     None None =
   Inr (Element ''Lap'' [(''StartTime'', ''2024-05-01T10:00:00Z'')] None
     [SubElement ''Intensity'' ''Active'', SubElement ''TriggerMethod'' ''Manual''])
   \<and> create_lap ''2024-05-01T10:00:00Z'' None None None None (Some ''0.0'') None None
     None None =
   Inr (Element ''Lap'' [(''StartTime'', ''2024-05-01T10:00:00Z'')] None
     [Element ''MaximumHeartRateBpm'' [] None [SubElement ''Value'' ''0''],
      SubElement ''Intensity'' ''Active'', SubElement ''TriggerMethod'' ''Manual''])"
  by (simp add: lap_eval parse_eval)

section \<open>The telemetry merger: keys and entries\<close>

lemma fold_err_append:
  "fold_err f s (xs @ ys) = bind (fold_err f s xs) (\<lambda>s'. fold_err f s' ys)"
  by (induction xs arbitrary: s) (auto simp: bind_def split: sum.splits)

lemma fold_err_fails:
  "x \<in> set xs \<Longrightarrow> (\<And>s. \<exists>e. f s x = Inl e) \<Longrightarrow> \<exists>e. fold_err f s xs = Inl e"
proof (induction xs arbitrary: s)
  case Nil
  then show ?case by simp
next
  case (Cons y ys)
  show ?case
  proof (cases "f s y")
    case (Inl e)
    then show ?thesis by simp
  next
    case (Inr s')
    show ?thesis
    proof (cases "x = y")
      case True
      with Cons.prems(2) [of s] Inr show ?thesis by simp
    next
      case False
      with Cons.prems(1) have "x \<in> set ys" by simp
      from Cons.IH [OF this Cons.prems(2), of s'] Inr show ?thesis by simp
    qed
  qed
qed

lemma fold_err_invariant:
  "fold_err f s xs = Inr r \<Longrightarrow> I s \<Longrightarrow> (\<And>a x b. I a \<Longrightarrow> x \<in> set xs \<Longrightarrow> f a x = Inr b \<Longrightarrow> I b) \<Longrightarrow> I r"
proof (induction xs arbitrary: s)
  case Nil
  then show ?case by simp
next
  case (Cons y ys)
  from Cons.prems(1) obtain s' where s': "f s y = Inr s'" "fold_err f s' ys = Inr r"
    by (auto split: sum.splits)
  have "I s'" using Cons.prems(3) [OF Cons.prems(2) _ s'(1)] by simp
  show ?case
    by (rule Cons.IH [OF s'(2) \<open>I s'\<close>]) (use Cons.prems(3) in auto)
qed

lemma dict_keys_set:
  "map fst (dict_set d k v) = (if k \<in> set (map fst d) then map fst d else map fst d @ [k])"
  by (simp add: dict_set_def update_keys)

lemma dict_get_set: "dict_get (dict_set d k v) k' = (if k' = k then Some v else dict_get d k')"
  by (simp add: dict_get_def dict_set_def update_conv')

lemma dict_has_set: "dict_has (dict_set d k v) k' \<longleftrightarrow> k' = k \<or> dict_has d k'"
  by (auto simp: dict_has_def dict_keys_set)

lemma dict_get_has: "dict_has d k \<longleftrightarrow> dict_get d k \<noteq> None"
  by (simp add: dict_has_def dict_get_def map_of_eq_None_iff)

lemma set_dict_set:
  "(k', v') \<in> set (dict_set d k v) \<Longrightarrow> (k' = k \<and> v' = v) \<or> (k', v') \<in> set d"
  unfolding dict_set_def by (induction d) (auto split: if_splits)

lemma location_step_Inr:
  assumes "location_step md e = Inr md'"
  shows "\<exists>k lat lon. dict_get e ''start_time'' = Some (PInt k) \<and> in_datetime_range k
     \<and> dict_get e ''latitude'' = Some lat \<and> dict_get e ''longitude'' = Some lon
     \<and> md' = dict_set md k [(''time'', PStr (strftime_utc k)), (''latitude'', lat),
          (''longitude'', lon), (''altitude'', py_get e ''altitude'')]"
proof -
  from assms obtain st time lat lon where
    a: "py_index e ''start_time'' = Inr st" "utc_time st = Inr time"
       "py_index e ''latitude'' = Inr lat" "py_index e ''longitude'' = Inr lon"
    and b: "(case st of PInt k \<Rightarrow> Inr (dict_set md k
            [(''time'', PStr time), (''latitude'', lat), (''longitude'', lon),
             (''altitude'', py_get e ''altitude'')]) | _ \<Rightarrow> Inl TypeError) = Inr md'"
    unfolding location_step_def bind_Inr by blast
  from a(2) obtain k where k: "st = PInt k" "in_datetime_range k" "time = strftime_utc k"
    by (cases st) (auto split: if_splits)
  from a(1,3,4) have "dict_get e ''start_time'' = Some st" "dict_get e ''latitude'' = Some lat"
    "dict_get e ''longitude'' = Some lon"
    by (auto simp: py_index_def split: option.splits)
  with b k show ?thesis by auto
qed


lemma first_occurrences_keys_from: "first_occurrences xs = keys_from [] xs"
  by (simp add: first_occurrences_def)

lemma keys_from_Cons:
  "keys_from ks (x # xs) = keys_from (if x \<in> set ks then ks else ks @ [x]) xs"
  by (simp add: keys_from_def)

lemma keys_from_Nil: "keys_from ks [] = ks"
  by (simp add: keys_from_def)

lemma set_keys_from: "set (keys_from ks xs) = set ks \<union> set xs"
  by (induction xs arbitrary: ks) (auto simp: keys_from_Cons keys_from_Nil)



lemma start_times_Cons:
  "dict_get e ''start_time'' = Some (PInt k) \<Longrightarrow> start_times (e # P) = k # start_times P"
  by (simp add: start_times_def)

lemma start_times_Nil: "start_times [] = []"
  by (simp add: start_times_def)

lemma fix_entry_made:
  "fix_entry k [(''time'', PStr (strftime_utc k)), (''latitude'', lat), (''longitude'', lon),
     (''altitude'', alt)]"
  by (simp add: fix_entry_def dict_get_def dict_has_def)

lemma location_step_ok:
  assumes "location_step md e = Inr md'" and "fixes_ok md"
  shows "fixes_ok md'"
proof -
  from location_step_Inr [OF assms(1)] obtain k lat lon where
    k: "in_datetime_range k"
    and md': "md' = dict_set md k [(''time'', PStr (strftime_utc k)), (''latitude'', lat),
          (''longitude'', lon), (''altitude'', py_get e ''altitude'')]"
    by blast
  show ?thesis
    unfolding fixes_ok_def md'
    using assms(2) k fix_entry_made
    by (auto simp: fixes_ok_def dest!: set_dict_set)
qed

lemma location_fold:
  "fold_err location_step md P = Inr md' \<Longrightarrow>
   map fst md' = keys_from (map fst md) (start_times P) \<and> length (start_times P) = length P
   \<and> (\<forall>k\<in>set (start_times P). in_datetime_range k)
   \<and> (fixes_ok md \<longrightarrow> fixes_ok md')"
proof (induction P arbitrary: md)
  case Nil
  then show ?case by (simp add: start_times_Nil keys_from_Nil)
next
  case (Cons e P)
  from Cons.prems obtain m1 where m1: "location_step md e = Inr m1"
    "fold_err location_step m1 P = Inr md'"
    by (auto split: sum.splits)
  from location_step_Inr [OF m1(1)] obtain k v where
    k: "dict_get e ''start_time'' = Some (PInt k)" "in_datetime_range k"
    and m1_eq: "m1 = dict_set md k v"
    by blast
  have keys1: "map fst m1 = (if k \<in> set (map fst md) then map fst md else map fst md @ [k])"
    unfolding m1_eq by (rule dict_keys_set)
  note ih = Cons.IH [OF m1(2)]
  have ok: "fixes_ok md \<longrightarrow> fixes_ok m1" using location_step_ok [OF m1(1)] by blast
  show ?case
    unfolding start_times_Cons [OF k(1)] keys_from_Cons
    using ih keys1 k(2) ok by simp
qed


lemma dict_update_get:
  "k \<notin> fst ` set other \<Longrightarrow> dict_get (dict_update d other) k = dict_get d k"
  unfolding dict_update_def
  by (induction other arbitrary: d) (auto simp: dict_get_set)

lemma dict_update_has: "dict_has d k \<Longrightarrow> dict_has (dict_update d other) k"
  unfolding dict_update_def
  by (induction other arbitrary: d) (auto simp: dict_has_set)

lemma payload_keys_only: "fst ` set (payload e) \<subseteq> set payload_keys"
  by (auto simp: payload_def)

lemma fix_entry_update:
  assumes "fix_entry k d"
  shows "fix_entry k (dict_update d (payload e))"
proof -
  have "''time'' \<notin> fst ` set (payload e)"
    using payload_keys_only [of e] by (auto simp: payload_keys_def)
  then have "dict_get (dict_update d (payload e)) ''time'' = dict_get d ''time''"
    by (rule dict_update_get)
  with assms show ?thesis
    by (simp add: fix_entry_def dict_update_has)
qed

lemma find_nearest_time_Inr:
  assumes "timestamps \<noteq> []"
  shows "\<exists>r. find_nearest_time (PInt t) timestamps = Inr r \<and> r \<in> set timestamps
           \<and> (\<forall>x\<in>set timestamps. \<bar>r - t\<bar> \<le> \<bar>x - t\<bar>)"
proof -
  from assms obtain b xs where tl: "timestamps = b # xs" by (cases timestamps) auto
  let ?k = "\<lambda>timestamp. \<bar>timestamp - t\<bar>"
  have "find_nearest_time (PInt t) timestamps = Inr (min_key ?k b xs)"
    by (simp add: find_nearest_time_def tl)
  moreover have "min_key ?k b xs \<in> set timestamps" unfolding tl by (rule min_key_mem)
  moreover have "\<forall>x\<in>set timestamps. ?k (min_key ?k b xs) \<le> ?k x"
    unfolding tl using min_key_le [of _ b xs ?k] by blast
  ultimately show ?thesis by blast
qed

lemma find_nearest_time_no_number:
  "ts \<noteq> PInt t \<Longrightarrow> (\<And>n. ts \<noteq> PInt n) \<Longrightarrow> \<exists>e. find_nearest_time ts timestamps = Inl e"
  by (cases ts; cases timestamps) (auto simp: find_nearest_time_def)

lemma resolve_Inr:
  assumes "set timestamps = set (map fst md)" and "timestamps \<noteq> []"
    and "sample_time e = PInt t"
  shows "\<exists>k. resolve md timestamps e = Inr k \<and> k \<in> set timestamps
     \<and> (\<forall>x\<in>set timestamps. \<bar>k - t\<bar> \<le> \<bar>x - t\<bar>) \<and> (t \<in> set timestamps \<longrightarrow> k = t)"
proof (cases "t \<in> set timestamps")
  case True
  then have "resolve md timestamps e = Inr t"
    using assms(1,3) by (simp add: resolve_def dict_has_def)
  with True show ?thesis by simp
next
  case False
  then have "resolve md timestamps e = find_nearest_time (PInt t) timestamps"
    using assms(1,3) by (simp add: resolve_def dict_has_def)
  with find_nearest_time_Inr [OF assms(2), of t] False show ?thesis by auto
qed

lemma live_step_attaches:
  assumes keys: "set timestamps = set (map fst md)" and ne: "timestamps \<noteq> []"
    and range: "\<forall>k\<in>set timestamps. in_datetime_range k"
    and t: "sample_time e = PInt t" and hr: "heart_rate_of e = Inr hr"
  shows "\<exists>k d. k \<in> set timestamps \<and> (\<forall>x\<in>set timestamps. \<bar>k - t\<bar> \<le> \<bar>x - t\<bar>)
     \<and> (t \<in> set timestamps \<longrightarrow> k = t) \<and> dict_get md k = Some d
     \<and> live_step timestamps md e =
         Inr (dict_set md k (dict_update d (payload (dict_set e ''heart_rate'' hr))))"
proof -
  from resolve_Inr [OF keys ne t] obtain k where
    k: "resolve md timestamps e = Inr k" "k \<in> set timestamps"
       "\<forall>x\<in>set timestamps. \<bar>k - t\<bar> \<le> \<bar>x - t\<bar>" "t \<in> set timestamps \<longrightarrow> k = t"
    by blast
  from k(2) keys have has: "dict_has md k" by (simp add: dict_has_def)
  then obtain d where d: "dict_get md k = Some d" by (auto simp: dict_get_has)
  from k(2) range have "utc_time (PInt k) = Inr (strftime_utc k)" by simp
  then have "live_step timestamps md e =
      Inr (dict_set md k (dict_update d (payload (dict_set e ''heart_rate'' hr))))"
    using k(1) hr has d by (simp add: live_step_def bind_def)
  with k d show ?thesis by blast
qed


lemma resolve_needs_number:
  assumes "resolve md timestamps e = Inr k"
  shows "\<exists>t. sample_time e = PInt t"
proof (cases "sample_time e")
  case PNone
  with assms show ?thesis
    by (cases timestamps) (simp_all add: resolve_def find_nearest_time_def)
next
  case (PInt t)
  then show ?thesis by simp
next
  case (PStr s)
  with assms show ?thesis
    by (cases timestamps) (simp_all add: resolve_def find_nearest_time_def)
qed

lemma resolve_needs_fixes:
  assumes "resolve md timestamps e = Inr k" and "set timestamps = set (map fst md)"
  shows "timestamps \<noteq> []"
proof
  assume "timestamps = []"
  with assms show False
    by (cases "sample_time e") (simp_all add: resolve_def find_nearest_time_def dict_has_def)
qed

lemma live_step_Inr:
  assumes keys: "set timestamps = set (map fst md)"
    and range: "\<forall>k\<in>set timestamps. in_datetime_range k"
    and step: "live_step timestamps md e = Inr md'"
  shows "\<exists>t hr k d. sample_time e = PInt t \<and> heart_rate_of e = Inr hr \<and> timestamps \<noteq> []
     \<and> k \<in> set timestamps \<and> dict_get md k = Some d
     \<and> md' = dict_set md k (dict_update d (payload (dict_set e ''heart_rate'' hr)))"
proof -
  from step obtain k0 hr where r: "resolve md timestamps e = Inr k0"
    and hr: "heart_rate_of e = Inr hr"
    unfolding live_step_def bind_Inr by blast
  from resolve_needs_number [OF r] obtain t where t: "sample_time e = PInt t" by blast
  have ne: "timestamps \<noteq> []" by (rule resolve_needs_fixes [OF r keys])
  from live_step_attaches [OF keys ne range t hr] step t hr ne show ?thesis by auto
qed

lemma live_step_keeps:
  assumes keys: "set timestamps = set (map fst md)"
    and range: "\<forall>k\<in>set timestamps. in_datetime_range k"
    and step: "live_step timestamps md e = Inr md'"
  shows "map fst md' = map fst md" and "fixes_ok md \<Longrightarrow> fixes_ok md'"
proof -
  from live_step_Inr [OF assms] obtain hr k d where
    k: "k \<in> set timestamps" "dict_get md k = Some d"
    and md': "md' = dict_set md k (dict_update d (payload (dict_set e ''heart_rate'' hr)))"
    by blast
  from k(1) keys show "map fst md' = map fst md"
    unfolding md' by (simp add: dict_keys_set)
  assume ok: "fixes_ok md"
  from k(2) have "(k, d) \<in> set md" by (simp add: dict_get_def map_of_SomeD)
  with ok have "in_datetime_range k" "fix_entry k d" by (auto simp: fixes_ok_def)
  then show "fixes_ok md'"
    unfolding md' fixes_ok_def using ok fix_entry_update [of k d]
    by (auto simp: fixes_ok_def dest!: set_dict_set)
qed

lemma live_fold_keeps:
  "fold_err (live_step timestamps) md S = Inr md' \<Longrightarrow> set timestamps = set (map fst md) \<Longrightarrow>
   \<forall>k\<in>set timestamps. in_datetime_range k \<Longrightarrow>
   map fst md' = map fst md \<and> (fixes_ok md \<longrightarrow> fixes_ok md')"
proof (induction S arbitrary: md)
  case Nil
  then show ?case by simp
next
  case (Cons e S)
  from Cons.prems(1) obtain m1 where m1: "live_step timestamps md e = Inr m1"
    "fold_err (live_step timestamps) m1 S = Inr md'"
    by (auto split: sum.splits)
  note keep = live_step_keeps [OF Cons.prems(2,3) m1(1)]
  have "set timestamps = set (map fst m1)" using Cons.prems(2) keep(1) by simp
  from Cons.IH [OF m1(2) this Cons.prems(3)] keep show ?case by auto
qed

lemma merge_Inr:
  assumes "merge_location_and_live_data P S = Inr m"
  shows "\<exists>md0. fold_err location_step [] P = Inr md0
     \<and> fold_err (live_step (sort (start_times P))) md0 S = Inr m
     \<and> map fst md0 = first_occurrences (start_times P)
     \<and> map fst m = first_occurrences (start_times P)
     \<and> set (sort (start_times P)) = set (map fst m)
     \<and> (\<forall>k\<in>set (sort (start_times P)). in_datetime_range k)
     \<and> length (start_times P) = length P \<and> fixes_ok m"
proof -
  from assms obtain md0 where md0: "fold_err location_step [] P = Inr md0"
    "fold_err (live_step (sort (start_times P))) md0 S = Inr m"
    unfolding merge_location_and_live_data_def bind_Inr by blast
  have ok0: "fixes_ok []" by (simp add: fixes_ok_def)
  from location_fold [OF md0(1)] ok0 have
    l: "map fst md0 = first_occurrences (start_times P)" "length (start_times P) = length P"
       "\<forall>k\<in>set (start_times P). in_datetime_range k" "fixes_ok md0"
    by (simp_all add: first_occurrences_keys_from)
  have ks: "set (sort (start_times P)) = set (map fst md0)"
    unfolding l(1) first_occurrences_keys_from set_keys_from by simp
  have rg: "\<forall>k\<in>set (sort (start_times P)). in_datetime_range k" using l(3) by simp
  from live_fold_keeps [OF md0(2) ks rg] l(4) have
    "map fst m = map fst md0" "fixes_ok m" by simp_all
  with md0 l ks rg show ?thesis by simp
qed

section \<open>Track points: what an entry gives\<close>

lemma tags_position:
  assumes "position d = Inr pos"
  shows "tags pos = (if dict_has d ''altitude'' \<and> dict_has d ''longitude'' then [''Position''] else [])"
    and "pos \<noteq> [] \<Longrightarrow> dict_has d ''latitude'' \<and> dict_has d ''longitude''"
  using assms
  by (auto simp: position_def bind_Inr tags_def py_index_def dict_get_has
      split: if_splits option.splits)

lemma tags_heart_rate_bpm:
  "heart_rate_bpm d = Inr hr \<Longrightarrow>
   tags hr = (if dict_has d ''heart_rate'' then [''HeartRateBpm''] else [])"
  by (auto simp: heart_rate_bpm_def bind_Inr tags_def dict_get_has split: option.splits)

lemma tags_cadence:
  "cadence d = Inr cad \<Longrightarrow> tags cad = (if dict_has d ''cadence'' then [''Cadence''] else [])"
  by (auto simp: cadence_def bind_Inr tags_def dict_get_has text_child_Inr SubElement_def
      split: option.splits)

lemma create_trackpoint_Inr:
  assumes "create_trackpoint d = Inr r"
  shows "\<exists>time pos hr cad. position d = Inr pos \<and> heart_rate_bpm d = Inr hr
     \<and> cadence d = Inr cad
     \<and> r = (if pos @ hr @ cad = [] then None
            else Some (Element ''Trackpoint'' [] None (Element ''Time'' [] time [] # pos @ hr @ cad)))"
  using assms unfolding create_trackpoint_def bind_Inr
  by (auto simp: Let_def split: if_splits)

lemma tags_empty: "tags xs = [] \<longleftrightarrow> xs = []"
  by (simp add: tags_def)




lemma dict_update_Cons:
  "dict_update d ((k, v) # other) = dict_update (dict_set d k v) other"
  by (simp add: dict_update_def)

lemma dict_update_lookup:
  "dict_get (dict_update d other) f =
     (case map_of (rev other) f of Some v \<Rightarrow> Some v | None \<Rightarrow> dict_get d f)"
proof (induction other arbitrary: d)
  case Nil
  then show ?case by (simp add: dict_update_def)
next
  case (Cons kv other)
  obtain k v where kv: "kv = (k, v)" by (cases kv)
  show ?case
    unfolding kv dict_update_Cons Cons.IH
    by (simp add: dict_get_set map_add_def split: option.splits)
qed

lemma map_of_keyed:
  "map_of (map (\<lambda>k. (k, g k)) ks) f = (if f \<in> set ks then Some (g f) else None)"
  by (induction ks) auto

lemma map_of_rev_distinct:
  "distinct (map fst xs) \<Longrightarrow> map_of (rev xs) k = map_of xs k"
proof (induction xs)
  case Nil
  then show ?case by simp
next
  case (Cons x xs)
  then have "fst x \<notin> fst ` set xs" and ih: "map_of (rev xs) k = map_of xs k" by simp_all
  then have "map_of (rev xs) (fst x) = None" by (simp add: map_of_eq_None_iff)
  with ih show ?case by (cases x) (auto simp: map_add_def split: option.splits)
qed

lemma payload_lookup:
  "map_of (rev (payload e)) f =
     (if f \<in> set payload_keys \<and> truthy (py_get e f) then Some (py_get e f) else None)"
proof -
  have "distinct (map fst (payload e))"
    by (simp add: payload_def payload_keys_def comp_def)
  then have "map_of (rev (payload e)) f = map_of (payload e) f" by (rule map_of_rev_distinct)
  then show ?thesis by (simp add: payload_def map_of_keyed)
qed

lemma py_get_set: "py_get (dict_set s k v) f = (if f = k then v else py_get s f)"
  by (simp add: py_get_def dict_get_set)

lemma attached_field:
  "dict_get (dict_update d (payload (dict_set s ''heart_rate'' hr))) f =
     (if f \<in> set [''distance'', ''cadence'', ''speed''] \<and> truthy (py_get s f)
      then Some (py_get s f)
      else if f = ''heart_rate'' \<and> truthy hr then Some hr else dict_get d f)"
  unfolding dict_update_lookup payload_lookup py_get_set
  by (auto simp: payload_keys_def)

section \<open>The telemetry merger: where a sample goes\<close>

text \<open>
  Claim C1, as amended. Let the position fixes \<open>P\<close> be not empty, let the merger have gone
  through \<open>P\<close> and the samples \<open>S1\<close> with the result \<open>md\<close>, and let the next sample \<open>s\<close> have
  an integer timestamp \<open>t\<close> (the value of \<^verbatim>\<open>start_time\<close>, or that of \<^verbatim>\<open>StartTime\<close> when the
  first is missing, null or zero) and a heart rate \<open>hr\<close> (its \<^verbatim>\<open>int\<close>, or None when the
  sample has none). Then the merger returns for \<open>S1\<close> followed by \<open>s\<close>. Its result has
  the keys of \<open>md\<close> and differs from \<open>md\<close> in the entry of one key \<open>k\<close> only: a
  position-fix timestamp whose distance to \<open>t\<close> is the least, and \<open>t\<close> itself when \<open>t\<close> is
  a position-fix timestamp. In that entry, each of distance, cadence and speed that has
  a true value in \<open>s\<close> (not null, not zero, not empty) now has that value, the heart rate
  is \<open>hr\<close> if that is true, and every other field is as it was: the payload replaces
  what was there, and nothing of it is lost for lack of a match.
\<close>

theorem merge_attaches_sample:
  assumes "merge_location_and_live_data P S1 = Inr md" and "P \<noteq> []"
    and "sample_time s = PInt t" and "heart_rate_of s = Inr hr"
  shows "\<exists>k d m d'. k \<in> set (start_times P)
     \<and> (\<forall>x\<in>set (start_times P). \<bar>k - t\<bar> \<le> \<bar>x - t\<bar>)
     \<and> (t \<in> set (start_times P) \<longrightarrow> k = t)
     \<and> dict_get md k = Some d
     \<and> merge_location_and_live_data P (S1 @ [s]) = Inr m
     \<and> dict_keys m = dict_keys md
     \<and> (\<forall>k'. k' \<noteq> k \<longrightarrow> dict_get m k' = dict_get md k')
     \<and> dict_get m k = Some d'
     \<and> (\<forall>f. dict_get d' f =
          (if f \<in> set [''distance'', ''cadence'', ''speed''] \<and> truthy (py_get s f)
           then Some (py_get s f)
           else if f = ''heart_rate'' \<and> truthy hr then Some hr else dict_get d f))"
proof -
  let ?ts = "sort (start_times P)"
  from merge_Inr [OF assms(1)] obtain md0 where
    md0: "fold_err location_step [] P = Inr md0" "fold_err (live_step ?ts) md0 S1 = Inr md"
    and keys: "set ?ts = set (map fst md)"
    and range: "\<forall>k\<in>set ?ts. in_datetime_range k"
    and len: "length (start_times P) = length P"
    by blast
  from len assms(2) have "start_times P \<noteq> []" by auto
  then have ne: "?ts \<noteq> []" by (metis length_0_conv length_sort)
  from live_step_attaches [OF keys ne range assms(3,4)] obtain k d where
    k: "k \<in> set ?ts" "\<forall>x\<in>set ?ts. \<bar>k - t\<bar> \<le> \<bar>x - t\<bar>" "t \<in> set ?ts \<longrightarrow> k = t"
       "dict_get md k = Some d"
    and step: "live_step ?ts md s =
         Inr (dict_set md k (dict_update d (payload (dict_set s ''heart_rate'' hr))))"
    by blast
  let ?d' = "dict_update d (payload (dict_set s ''heart_rate'' hr))"
  let ?m = "dict_set md k ?d'"
  have "merge_location_and_live_data P (S1 @ [s]) = live_step ?ts md s"
    unfolding merge_location_and_live_data_def fold_err_append using md0
    by (simp add: bind_def split: sum.splits)
  with step have m: "merge_location_and_live_data P (S1 @ [s]) = Inr ?m" by simp
  from k(1) keys have "k \<in> set (map fst md)" by simp
  then have mk: "dict_keys ?m = dict_keys md" by (simp add: dict_keys_def dict_keys_set)
  have other: "\<forall>k'. k' \<noteq> k \<longrightarrow> dict_get ?m k' = dict_get md k'" by (simp add: dict_get_set)
  have at: "dict_get ?m k = Some ?d'" by (simp add: dict_get_set)
  have fields: "\<forall>f. dict_get ?d' f =
          (if f \<in> set [''distance'', ''cadence'', ''speed''] \<and> truthy (py_get s f)
           then Some (py_get s f)
           else if f = ''heart_rate'' \<and> truthy hr then Some hr else dict_get d f)"
    by (rule allI) (rule attached_field)
  from k have k': "k \<in> set (start_times P)"
    "\<forall>x\<in>set (start_times P). \<bar>k - t\<bar> \<le> \<bar>x - t\<bar>" "t \<in> set (start_times P) \<longrightarrow> k = t"
    by simp_all
  from k' k(4) m mk other at fields show ?thesis by blast
qed

theorem merge_attaches_sample_witness:
  "merge_location_and_live_data
     [[(''start_time'', PInt 1000), (''latitude'', PInt 47), (''longitude'', PInt 8)],
      [(''start_time'', PInt 2000), (''latitude'', PInt 47), (''longitude'', PInt 8)],
      [(''start_time'', PInt 3000), (''latitude'', PInt 47), (''longitude'', PInt 8)]]
     [[(''start_time'', PInt 2000), (''heart_rate'', PInt 140), (''speed'', PInt 3)]] =
   Inr [(1000, [(''time'', PStr ''1970-01-01T00:00:01.000Z''), (''latitude'', PInt 47),
                (''longitude'', PInt 8), (''altitude'', PNone)]),
        (2000, [(''time'', PStr ''1970-01-01T00:00:02.000Z''), (''latitude'', PInt 47),
                (''longitude'', PInt 8), (''altitude'', PNone), (''heart_rate'', PInt 140),
                (''speed'', PInt 3)]),
        (3000, [(''time'', PStr ''1970-01-01T00:00:03.000Z''), (''latitude'', PInt 47),
                (''longitude'', PInt 8), (''altitude'', PNone)])]
   \<and> sample_time [(''StartTime'', PInt 2500), (''heart_rate'', PInt 150), (''speed'', PInt 0),
                  (''cadence'', PInt 85)] = PInt 2500
   \<and> heart_rate_of [(''StartTime'', PInt 2500), (''heart_rate'', PInt 150), (''speed'', PInt 0),
                    (''cadence'', PInt 85)] = Inr (PInt 150)
   \<and> merge_location_and_live_data
     [[(''start_time'', PInt 1000), (''latitude'', PInt 47), (''longitude'', PInt 8)],
      [(''start_time'', PInt 2000), (''latitude'', PInt 47), (''longitude'', PInt 8)],
      [(''start_time'', PInt 3000), (''latitude'', PInt 47), (''longitude'', PInt 8)]]
     ([[(''start_time'', PInt 2000), (''heart_rate'', PInt 140), (''speed'', PInt 3)]]
      @ [[(''StartTime'', PInt 2500), (''heart_rate'', PInt 150), (''speed'', PInt 0),
          (''cadence'', PInt 85)]]) =
   Inr [(1000, [(''time'', PStr ''1970-01-01T00:00:01.000Z''), (''latitude'', PInt 47),
                (''longitude'', PInt 8), (''altitude'', PNone)]),
        (2000, [(''time'', PStr ''1970-01-01T00:00:02.000Z''), (''latitude'', PInt 47),
                (''longitude'', PInt 8), (''altitude'', PNone), (''heart_rate'', PInt 150),
                (''speed'', PInt 3), (''cadence'', PInt 85)]),
        (3000, [(''time'', PStr ''1970-01-01T00:00:03.000Z''), (''latitude'', PInt 47),
                (''longitude'', PInt 8), (''altitude'', PNone)])]"
  (is "?m0 \<and> ?t \<and> ?h \<and> ?m1")
proof -
  have m0: ?m0 by code_simp
  have t: ?t by code_simp
  have h: ?h by code_simp
  have m1: ?m1 by code_simp
  from merge_attaches_sample [OF m0 _ t h] m0 t h m1 show ?thesis by blast
qed

text \<open>
  Against claim C1 as first stated. A sample at timestamp 0 on a position fix at 0
  matches exactly, but 0 is false: the timestamp resolves to None and the merger
  raises. A sample that matches a position fix and has a null heart rate makes
  \<^verbatim>\<open>int\<close> raise: its cadence is not attached. Without a position fix, \<^verbatim>\<open>min\<close> raises
  on the first sample.
\<close>

theorem merge_sample_not_attached:
  "merge_location_and_live_data
     [[(''start_time'', PInt 0), (''latitude'', PInt 47), (''longitude'', PInt 8)]]
     [[(''start_time'', PInt 0), (''heart_rate'', PInt 140)]] = Inl TypeError
   \<and> merge_location_and_live_data
     [[(''start_time'', PInt 1000), (''latitude'', PInt 47), (''longitude'', PInt 8)]]
     [[(''start_time'', PInt 1000), (''heart_rate'', PNone), (''cadence'', PInt 80)]]
     = Inl TypeError
   \<and> merge_location_and_live_data []
     [[(''start_time'', PInt 1000), (''heart_rate'', PInt 140)]] = Inl ValueError"
  (is "?a \<and> ?b \<and> ?c")
proof -
  have a: ?a by code_simp
  have b: ?b by code_simp
  have c: ?c by code_simp
  from a b c show ?thesis by blast
qed

text \<open>
  Claim C8, as amended. The merger has no test for a sample without a timestamp. Such
  a sample resolves to None, and the nearest-timestamp search raises on it (TypeError
  from \<^verbatim>\<open>timestamp - ts\<close>, or ValueError from \<^verbatim>\<open>min\<close> when there are no position fixes):
  the merger raises and returns nothing, for this sample and for all the others.
\<close>

theorem merge_raises_without_timestamp:
  assumes "s \<in> set S" and "\<not> dict_has s ''start_time''" and "\<not> dict_has s ''StartTime''"
  shows "\<exists>e. merge_location_and_live_data P S = Inl e"
proof (cases "fold_err location_step [] P")
  case (Inl e)
  then show ?thesis by (simp add: merge_location_and_live_data_def bind_def)
next
  case (Inr md0)
  from assms(2,3) have none: "sample_time s = PNone"
    by (simp add: sample_time_def py_get_def py_or_def dict_get_has)
  have "\<exists>e. live_step ts md s = Inl e" for ts md
    using none by (cases ts) (simp_all add: live_step_def resolve_def find_nearest_time_def bind_def)
  from fold_err_fails [of s S "live_step (sort (start_times P))", OF assms(1) this]
  show ?thesis using Inr by (simp add: merge_location_and_live_data_def bind_def)
qed

theorem merge_raises_without_timestamp_witness:
  "[(''heart_rate'', PInt 140)] \<in> set [[(''heart_rate'', PInt 140)]]
   \<and> \<not> dict_has [(''heart_rate'', PInt 140)] ''start_time''
   \<and> \<not> dict_has [(''heart_rate'', PInt 140)] ''StartTime''
   \<and> merge_location_and_live_data
        [[(''start_time'', PInt 1000), (''latitude'', PInt 47), (''longitude'', PInt 8)]]
        [[(''heart_rate'', PInt 140)]] = Inl TypeError"
  (is "?a \<and> ?b \<and> ?c \<and> ?d")
proof -
  have a: ?a by simp
  have b: ?b by (simp add: dict_has_def)
  have c: ?c by (simp add: dict_has_def)
  have d: ?d by code_simp
  from merge_raises_without_timestamp [OF a b c] a b c d show ?thesis by blast
qed

text \<open>
  Against claim C8 as first stated: a sample without a timestamp, followed by a sample
  that matches a position fix. The merger raises TypeError; neither sample is merged.
\<close>

theorem merge_sample_without_timestamp:
  "merge_location_and_live_data
     [[(''start_time'', PInt 1000), (''latitude'', PInt 47), (''longitude'', PInt 8)]]
     [[(''heart_rate'', PInt 140)], [(''start_time'', PInt 1000), (''heart_rate'', PInt 150)]]
   = Inl TypeError"
  by code_simp

text \<open>
  A value that \<^verbatim>\<open>lxml\<close> refuses as text goes through the merger and makes the caller's
  loop over the entries raise: here a latitude that is a string with a control
  character. This is why the statement on the track points below asks that the values
  of the entries render.
\<close>

lemma collect_trackpoint_refuses:
  "merge_location_and_live_data
     [[(''start_time'', PInt 1000), (''latitude'', PStr [CHR 0x01]), (''longitude'', PInt 8)]]
     [] =
   Inr [(1000, [(''time'', PStr ''1970-01-01T00:00:01.000Z''), (''latitude'', PStr [CHR 0x01]),
                (''longitude'', PInt 8), (''altitude'', PNone)])]
   \<and> fold_err collect_trackpoint []
       [(1000, [(''time'', PStr ''1970-01-01T00:00:01.000Z''), (''latitude'', PStr [CHR 0x01]),
                (''longitude'', PInt 8), (''altitude'', PNone)])] = Inl ValueError"
  (is "?a \<and> ?b")
proof -
  have a: ?a by code_simp
  have b: ?b by code_simp
  from a b show ?thesis by (rule conjI)
qed




text \<open>
  Claim C3, as amended. What counts for \<open>create_trackpoint\<close> is what it writes: a heart
  rate, a cadence, a position. Distance and speed are not written (the docstring says
  why) and do not count. When \<open>create_trackpoint\<close> returns for an entry: it returns a
  track point if the entry has a heart rate, a cadence, or latitude, longitude and
  altitude; it returns None if the entry has no heart rate, no cadence and no
  longitude, so for an entry with only a time, or with a time and a distance or speed.
  A track point has \<^verbatim>\<open>HeartRateBpm\<close> exactly when the entry has a heart rate and \<^verbatim>\<open>Cadence\<close>
  exactly when it has a cadence; it has a \<^verbatim>\<open>Position\<close> if the entry has latitude,
  longitude and altitude, and only if it has latitude and longitude; it has no child
  other than these and \<^verbatim>\<open>Time\<close>. Every entry that the merger returns gives a track
  point. (An entry with a longitude but without latitude or altitude is not part of
  this statement.)
\<close>

theorem create_trackpoint_fields:
  assumes "create_trackpoint d = Inr r"
  shows "(dict_has d ''heart_rate'' \<or> dict_has d ''cadence''
       \<or> (dict_has d ''latitude'' \<and> dict_has d ''longitude'' \<and> dict_has d ''altitude'')
      \<longrightarrow> r \<noteq> None)
    \<and> (\<not> dict_has d ''heart_rate'' \<and> \<not> dict_has d ''cadence'' \<and> \<not> dict_has d ''longitude''
      \<longrightarrow> r = None)
    \<and> (\<forall>tp. r = Some tp \<longrightarrow>
          (''HeartRateBpm'' \<in> set (tags (children tp)) \<longleftrightarrow> dict_has d ''heart_rate'')
        \<and> (''Cadence'' \<in> set (tags (children tp)) \<longleftrightarrow> dict_has d ''cadence'')
        \<and> (dict_has d ''latitude'' \<and> dict_has d ''longitude'' \<and> dict_has d ''altitude''
             \<longrightarrow> ''Position'' \<in> set (tags (children tp)))
        \<and> (''Position'' \<in> set (tags (children tp))
             \<longrightarrow> dict_has d ''latitude'' \<and> dict_has d ''longitude'')
        \<and> set (tags (children tp)) \<subseteq> {''Time'', ''Position'', ''HeartRateBpm'', ''Cadence''})
    \<and> ((\<exists>P S m k. merge_location_and_live_data P S = Inr m \<and> (k, d) \<in> set m) \<longrightarrow> r \<noteq> None)"
proof -
  from create_trackpoint_Inr [OF assms] obtain time pos hr cad where
    p: "position d = Inr pos" "heart_rate_bpm d = Inr hr" "cadence d = Inr cad"
    and r: "r = (if pos @ hr @ cad = [] then None
            else Some (Element ''Trackpoint'' [] None (Element ''Time'' [] time [] # pos @ hr @ cad)))"
    by blast
  note tp = tags_position [OF p(1)]
  note th = tags_heart_rate_bpm [OF p(2)]
  note tc = tags_cadence [OF p(3)]
  have e: "pos @ hr @ cad = [] \<longleftrightarrow> tags pos = [] \<and> tags hr = [] \<and> tags cad = []"
    by (simp add: tags_empty)
  have a: "dict_has d ''heart_rate'' \<or> dict_has d ''cadence''
       \<or> (dict_has d ''latitude'' \<and> dict_has d ''longitude'' \<and> dict_has d ''altitude'')
      \<longrightarrow> r \<noteq> None"
    unfolding r e tp(1) th tc by simp
  have b: "\<not> dict_has d ''heart_rate'' \<and> \<not> dict_has d ''cadence'' \<and> \<not> dict_has d ''longitude''
      \<longrightarrow> r = None"
    unfolding r e tp(1) th tc by simp
  have c: "\<forall>tp. r = Some tp \<longrightarrow>
          (''HeartRateBpm'' \<in> set (tags (children tp)) \<longleftrightarrow> dict_has d ''heart_rate'')
        \<and> (''Cadence'' \<in> set (tags (children tp)) \<longleftrightarrow> dict_has d ''cadence'')
        \<and> (dict_has d ''latitude'' \<and> dict_has d ''longitude'' \<and> dict_has d ''altitude''
             \<longrightarrow> ''Position'' \<in> set (tags (children tp)))
        \<and> (''Position'' \<in> set (tags (children tp))
             \<longrightarrow> dict_has d ''latitude'' \<and> dict_has d ''longitude'')
        \<and> set (tags (children tp)) \<subseteq> {''Time'', ''Position'', ''HeartRateBpm'', ''Cadence''}"
  proof (intro allI impI)
    fix tp assume "r = Some tp"
    with r have c: "children tp = Element ''Time'' [] time [] # pos @ hr @ cad"
      by (auto split: if_splits)
    have t: "tags (children tp) = ''Time'' # tags pos @ tags hr @ tags cad"
      unfolding c by (simp add: tags_def)
    have pos_ll: "tags pos \<noteq> [] \<longrightarrow> dict_has d ''latitude'' \<and> dict_has d ''longitude''"
      using tp(2) by (simp add: tags_empty)
    show "(''HeartRateBpm'' \<in> set (tags (children tp)) \<longleftrightarrow> dict_has d ''heart_rate'')
        \<and> (''Cadence'' \<in> set (tags (children tp)) \<longleftrightarrow> dict_has d ''cadence'')
        \<and> (dict_has d ''latitude'' \<and> dict_has d ''longitude'' \<and> dict_has d ''altitude''
             \<longrightarrow> ''Position'' \<in> set (tags (children tp)))
        \<and> (''Position'' \<in> set (tags (children tp))
             \<longrightarrow> dict_has d ''latitude'' \<and> dict_has d ''longitude'')
        \<and> set (tags (children tp)) \<subseteq> {''Time'', ''Position'', ''HeartRateBpm'', ''Cadence''}"
      using pos_ll unfolding t tp(1) th tc by auto
  qed
  have m: "(\<exists>P S m k. merge_location_and_live_data P S = Inr m \<and> (k, d) \<in> set m) \<longrightarrow> r \<noteq> None"
  proof
    assume "\<exists>P S m k. merge_location_and_live_data P S = Inr m \<and> (k, d) \<in> set m"
    then obtain P S m k where "merge_location_and_live_data P S = Inr m" "(k, d) \<in> set m"
      by blast
    with merge_Inr [of P S m] have "fix_entry k d" by (auto simp: fixes_ok_def)
    then have "dict_has d ''latitude'' \<and> dict_has d ''longitude'' \<and> dict_has d ''altitude''"
      by (simp add: fix_entry_def)
    with a show "r \<noteq> None" by blast
  qed
  from a b c m show ?thesis by blast
qed

theorem create_trackpoint_fields_witness:
  "create_trackpoint [(''time'', PStr ''1970-01-01T00:00:01.000Z''), (''heart_rate'', PInt 140)] =
     Inr (Some (Element ''Trackpoint'' [] None
       [Element ''Time'' [] (Some (Text ''1970-01-01T00:00:01.000Z'')) [],
        Element ''HeartRateBpm'' [] None [SubElement ''Value'' ''140'']]))
   \<and> dict_has [(''time'', PStr ''1970-01-01T00:00:01.000Z''), (''heart_rate'', PInt 140)]
        ''heart_rate''
   \<and> create_trackpoint [(''time'', PStr ''1970-01-01T00:00:01.000Z'')] = Inr None
   \<and> \<not> dict_has [(''time'', PStr ''1970-01-01T00:00:01.000Z'')] ''longitude''"
  (is "?a \<and> ?b \<and> ?c \<and> ?d")
proof -
  have a: ?a by code_simp
  have b: ?b by (simp add: dict_has_def)
  have c: ?c by code_simp
  have d: ?d by (simp add: dict_has_def)
  from create_trackpoint_fields [OF a] create_trackpoint_fields [OF c] a b c d
  show ?thesis by blast
qed

text \<open>
  Against claim C3 as first stated: an entry with a time and a distance, and an entry
  with a time and a speed, carry a field besides the time, and no track point is made.
\<close>

theorem create_trackpoint_distance_only:
  "create_trackpoint [(''time'', PStr ''1970-01-01T00:00:01.000Z''), (''distance'', PInt 5)] =
     Inr None
   \<and> create_trackpoint [(''time'', PStr ''1970-01-01T00:00:01.000Z''), (''speed'', PInt 3)] =
     Inr None"
  (is "?a \<and> ?b")
proof -
  have a: ?a by code_simp
  have b: ?b by code_simp
  from a b show ?thesis by (rule conjI)
qed

section \<open>The document assembler: the track\<close>






section \<open>The pipeline driver: exercises without position fixes\<close>







end
